theory Spec2Isabelle
  imports Complex_Main "HOL-Library.Sublist" "HOL-Library.Word" "HOL-Library.Log_Nat"
begin

section \<open>JavaScript values used by the license module\<close>

text \<open>
  A JavaScript string is the list of its UTF-16 code units. \<open>str\<close> turns a literal of
  the program into such a string. The code, the message and the names of the
  configuration variables, which the program only ever writes as literals, stay literals.
\<close>

type_synonym jsstring = "16 word list"

definition chr :: "char \<Rightarrow> 16 word" where
  "chr c = of_char c"

definition str :: "string \<Rightarrow> jsstring" where
  "str s = map chr s"

text \<open>
  The white space that \<open>String.prototype.trim\<close> and \<open>parseInt\<close> strip: the code points
  \<open>WhiteSpace\<close> and \<open>LineTerminator\<close> of the language, that is tab, line feed, vertical
  tab, form feed, carriage return, space, U+00A0, U+1680, U+2000 to U+200A, U+2028, U+2029,
  U+202F, U+205F, U+3000 and U+FEFF. Each is one code unit.
\<close>

definition isWhiteSpace :: "16 word \<Rightarrow> bool" where
  "isWhiteSpace c =
     (c \<in> set [0x0009, 0x000A, 0x000B, 0x000C, 0x000D, 0x0020, 0x00A0, 0x1680,
               0x2028, 0x2029, 0x202F, 0x205F, 0x3000, 0xFEFF]
      \<or> (0x2000 \<le> c \<and> c \<le> 0x200A))"

definition trim :: "jsstring \<Rightarrow> jsstring" where
  "trim s = rev (dropWhile isWhiteSpace (rev (dropWhile isWhiteSpace s)))"

text \<open>\<open>value || fallback\<close> on an optional string: the fallback replaces both an absent
  and an empty value.\<close>

definition orDefault :: "jsstring option \<Rightarrow> jsstring \<Rightarrow> jsstring" where
  "orDefault v d = (case v of None \<Rightarrow> d | Some s \<Rightarrow> if s = [] then d else s)"

text \<open>A parsed JSON document. An object is the list of its properties; a property read
  takes the first binding of the name. A value of type \<open>unknown\<close> that may be
  \<open>undefined\<close> is a \<open>json option\<close>.\<close>

datatype json =
    JNull
  | JBool bool
  | JNumber rat
  | JString jsstring
  | JArray "json list"
  | JObject "(jsstring \<times> json) list"

type_synonym UnknownRecord = "(jsstring \<times> json) list"

section \<open>Schema: the licenses and processed_events tables\<close>

text \<open>Timestamps are milliseconds since the epoch. The primary key, a generated UUID in
  the schema, is drawn from a counter of the datastore. \<open>InsertLicense\<close> holds the columns
  that an insert supplies; a row adds the columns that the datastore fills in.\<close>

record InsertLicense =
  key :: jsstring
  email :: "jsstring option"
  status :: jsstring
  plan :: jsstring
  maxDevices :: int
  paddleSubscriptionId :: "jsstring option"
  expiresAt :: int

record license = InsertLicense +
  id' :: nat
  createdAt :: int
  updatedAt :: int

text \<open>The built-ins of the platform that the module calls and that are not code of the
  repository: HMAC-SHA256 (key, message), \<open>JSON.parse\<close> (\<open>None\<close> when it throws),
  \<open>Date.parse\<close> (\<open>None\<close> for NaN), \<open>Date.prototype.toISOString\<close>,
  \<open>String.prototype.toLowerCase\<close> (the case mapping of Unicode), the two bytes that
  the n-th call of \<open>randomBytes(2)\<close> returns, and, of the datastore, whether it refuses
  to store the values of a license row for the type of a column other than the length of
  the key (a text with U+0000, a timestamp that it cannot read).\<close>

record runtime =
  hmacSha256 :: "jsstring \<Rightarrow> jsstring \<Rightarrow> 256 word"
  jsonParse :: "jsstring \<Rightarrow> json option"
  dateParse :: "jsstring \<Rightarrow> int option"
  toISOString :: "int \<Rightarrow> jsstring"
  toLowerCase :: "jsstring \<Rightarrow> jsstring"
  randomBytes2 :: "nat \<Rightarrow> 8 word \<times> 8 word"
  refusesLicense :: "InsertLicense \<Rightarrow> bool"

record processedEvent =
  pe_id :: nat
  pe_eventId :: jsstring
  pe_source :: string
  pe_processedAt :: int

text \<open>What a call does to its collaborators, in order: the statements sent to the
  datastore, and each application of the lifecycle engine.\<close>

datatype effect =
    DbSelectLicenseByKey jsstring
  | DbSelectLicenseBySubscription jsstring
  | DbInsertProcessedEvent jsstring
  | DbInsertLicense jsstring
  | DbUpdateLicenseById nat
  | DbUpdateLicenseBySubscription jsstring
  | DbDeleteProcessedEvent jsstring
  | ApplyLifecycle jsstring

fun isSelect :: "effect \<Rightarrow> bool" where
  "isSelect (DbSelectLicenseByKey _) = True"
| "isSelect (DbSelectLicenseBySubscription _) = True"
| "isSelect _ = False"

record world =
  licenses :: "license list"
  processedEvents :: "processedEvent list"
  nextId :: nat
  randomCalls :: nat
  effects :: "effect list"

definition emit :: "effect \<Rightarrow> world \<Rightarrow> world" where
  "emit e w = w\<lparr>effects := effects w @ [e]\<rparr>"

text \<open>\<open>db.select().from(licenses).where(eq(licenses.key, k)).limit(1)\<close>\<close>

definition selectLicenseByKey :: "jsstring \<Rightarrow> world \<Rightarrow> license list \<times> world" where
  "selectLicenseByKey k w =
     (take 1 (filter (\<lambda>l. key l = k) (licenses w)), emit (DbSelectLicenseByKey k) w)"

section \<open>license.types.ts\<close>

text \<open>In \<open>details\<close>, \<open>None\<close> stands for both \<open>undefined\<close> and \<open>null\<close>.\<close>

record LicenseValidationResult =
  valid :: bool
  statusCode :: nat
  message :: string
  code :: string
  details :: "UnknownRecord option"
  license :: "license option"

text \<open>\<open>LicenseHttpError(statusCode, code, message, details)\<close>, and the other
  exceptions that the modelled code could raise: the \<open>RangeError\<close> of
  \<open>timingSafeEqual\<close> on buffers of different length, and the two errors that the
  datastore reports for an insert: a unique violation (with the name of the constraint),
  and a value that it refuses to store.\<close>

datatype error =
    LicenseHttpError nat string string "UnknownRecord option"
  | TimingSafeEqualLengthError
  | UniqueViolation string
  | ValueRefused

section \<open>String and buffer built-ins\<close>

text \<open>\<open>String.prototype.toUpperCase\<close> on ASCII; the module applies it to hex digits only.\<close>

definition toUpperCase :: "jsstring \<Rightarrow> jsstring" where
  "toUpperCase s = map (\<lambda>c. if 97 \<le> c \<and> c \<le> 122 then c - 32 else c) s"

text \<open>\<open>s.split(sep)\<close> for a separator that is one character out of a class.\<close>

fun splitOn :: "(16 word \<Rightarrow> bool) \<Rightarrow> jsstring \<Rightarrow> jsstring list" where
  "splitOn p [] = [[]]"
| "splitOn p (c # cs) =
     (if p c then [] # splitOn p cs
      else (case splitOn p cs of [] \<Rightarrow> [[c]] | x # xs \<Rightarrow> (c # x) # xs))"

fun joinWith :: "jsstring \<Rightarrow> jsstring list \<Rightarrow> jsstring" where
  "joinWith sep [] = []"
| "joinWith sep [x] = x"
| "joinWith sep (x # y # ys) = x @ sep @ joinWith sep (y # ys)"

definition isDigit :: "16 word \<Rightarrow> bool" where
  "isDigit c = (48 \<le> c \<and> c \<le> 57)"

fun digitsValue :: "int \<Rightarrow> jsstring \<Rightarrow> int" where
  "digitsValue acc [] = acc"
| "digitsValue acc (c # cs) = digitsValue (10 * acc + (uint c - 48)) cs"

text \<open>
  The numbers that the module computes with are doubles whose values are integers: a
  finite one is given by its value. \<open>roundToDouble\<close> is the integer that a double holds
  for an exact integer result: the result itself below 2^53, and beyond that the nearest
  integer with a significand of 53 bits, ties to the even significand. From 2^1024 on the
  rounded result is an infinity.
\<close>

datatype number = NaN | PlusInfinity | MinusInfinity | Finite int

definition isFinite :: "number \<Rightarrow> bool" where
  "isFinite x = (case x of Finite _ \<Rightarrow> True | _ \<Rightarrow> False)"

definition roundToDouble :: "int \<Rightarrow> int" where
  "roundToDouble n =
     (let m = \<bar>n\<bar> in
      if m < 2 ^ 53 then n
      else
        let e = nat (bitlen m) - 53;
            q = m div 2 ^ e;
            r = m mod 2 ^ e;
            half = 2 ^ (e - 1);
            q' = (if r > half \<or> (r = half \<and> odd q) then q + 1 else q)
        in sgn n * (q' * 2 ^ e))"

definition toNumber :: "int \<Rightarrow> number" where
  "toNumber n =
     (let v = roundToDouble n in
      if v \<ge> 2 ^ 1024 then PlusInfinity
      else if v \<le> - (2 ^ 1024) then MinusInfinity
      else Finite v)"

text \<open>\<open>Number.parseInt(s, 10)\<close>: white space, a sign, then the longest run of decimal
  digits; NaN without a digit, otherwise the double of the integer read.\<close>

definition parseInt10 :: "jsstring \<Rightarrow> number" where
  "parseInt10 s =
     (let t = dropWhile isWhiteSpace s;
          neg = (case t of [] \<Rightarrow> False | c # _ \<Rightarrow> c = chr (CHR ''-''));
          u = (case t of [] \<Rightarrow> [] | c # r \<Rightarrow> if c = chr (CHR ''-'') \<or> c = chr (CHR ''+'') then r else t);
          ds = takeWhile isDigit u
      in if ds = [] then NaN
         else toNumber (if neg then - digitsValue 0 ds else digitsValue 0 ds))"

definition hexDigit :: "nat \<Rightarrow> 16 word" where
  "hexDigit n = str ''0123456789abcdef'' ! n"

definition unhex :: "16 word \<Rightarrow> nat option" where
  "unhex c =
     (if 48 \<le> c \<and> c \<le> 57 then Some (unat c - 48)
      else if 97 \<le> c \<and> c \<le> 102 then Some (unat c - 87)
      else if 65 \<le> c \<and> c \<le> 70 then Some (unat c - 55)
      else None)"

text \<open>\<open>buffer.toString("hex")\<close>\<close>

definition hexEncode :: "8 word list \<Rightarrow> jsstring" where
  "hexEncode bs = concat (map (\<lambda>b. [hexDigit (unat b div 16), hexDigit (unat b mod 16)]) bs)"

text \<open>\<open>Buffer.from(s, "hex")\<close>: decoding stops at the first pair that is not two hex digits,
  and a final single character is dropped.\<close>

fun hexDecode :: "jsstring \<Rightarrow> 8 word list" where
  "hexDecode (a # b # rest) =
     (case unhex a of
        None \<Rightarrow> []
      | Some x \<Rightarrow> (case unhex b of None \<Rightarrow> [] | Some y \<Rightarrow> of_nat (16 * x + y) # hexDecode rest))"
| "hexDecode _ = []"

text \<open>The 32 bytes of a SHA-256 digest, most significant first.\<close>

definition digestBytes :: "256 word \<Rightarrow> 8 word list" where
  "digestBytes d = map (\<lambda>i. ucast (drop_bit (8 * (31 - i)) d)) [0..<32]"

text \<open>\<open>crypto.timingSafeEqual\<close> throws a \<open>RangeError\<close> on buffers of different length.\<close>

definition timingSafeEqual :: "8 word list \<Rightarrow> 8 word list \<Rightarrow> error + bool" where
  "timingSafeEqual a b = (if length a \<noteq> length b then Inl TimingSafeEqualLengthError else Inr (a = b))"

section \<open>license.helpers.ts\<close>

definition PADDLE_ACTIVATING_EVENTS :: "jsstring set" where
  "PADDLE_ACTIVATING_EVENTS =
     {str ''subscription.activated'', str ''subscription.created'', str ''subscription.updated'',
      str ''subscription.resumed'', str ''subscription.trialing'', str ''subscription.past_due''}"

definition PADDLE_DEACTIVATING_EVENTS :: "jsstring set" where
  "PADDLE_DEACTIVATING_EVENTS =
     {str ''subscription.canceled'', str ''subscription.cancelled'', str ''subscription.paused'',
      str ''subscription.expired'', str ''subscription.terminated''}"

fun asRecord :: "json option \<Rightarrow> UnknownRecord option" where
  "asRecord (Some (JObject props)) = Some props"
| "asRecord _ = None"

fun readString :: "json option \<Rightarrow> jsstring option" where
  "readString (Some (JString s)) = (if length (trim s) > 0 then Some (trim s) else None)"
| "readString _ = None"

text \<open>\<open>new Date(number)\<close> clips: beyond 8.64e15 ms the date is invalid, otherwise the
  number is truncated towards zero.\<close>

definition timeClip :: "rat \<Rightarrow> int option" where
  "timeClip q =
     (if \<bar>q\<bar> > 8640000000000000 then None
      else Some (if q < 0 then - \<lfloor>- q\<rfloor> else \<lfloor>q\<rfloor>))"

fun readDate :: "runtime \<Rightarrow> json option \<Rightarrow> int option" where
  "readDate rt (Some (JString s)) = dateParse rt s"
| "readDate rt (Some (JNumber q)) = timeClip q"
| "readDate rt _ = None"

fun readNestedFrom :: "json option \<Rightarrow> jsstring list \<Rightarrow> json option" where
  "readNestedFrom current [] = current"
| "readNestedFrom current (segment # path) =
     (case asRecord current of
        None \<Rightarrow> None
      | Some node \<Rightarrow>
          (case map_of node segment of
             None \<Rightarrow> None
           | Some v \<Rightarrow> readNestedFrom (Some v) path))"

definition readNestedValue :: "UnknownRecord \<Rightarrow> jsstring list \<Rightarrow> json option" where
  "readNestedValue source path = readNestedFrom (Some (JObject source)) path"

definition derivePlanFromPriceId :: "runtime \<Rightarrow> jsstring option \<Rightarrow> jsstring" where
  "derivePlanFromPriceId rt priceId =
     (case priceId of
        None \<Rightarrow> str ''pro''
      | Some p \<Rightarrow>
          if p = [] then str ''pro''
          else let normalized = toLowerCase rt p in
            if sublist (str ''enterprise'') normalized then str ''enterprise''
            else if sublist (str ''business'') normalized then str ''business''
            else str ''pro'')"

definition deriveMaxDevices :: "runtime \<Rightarrow> jsstring \<Rightarrow> int" where
  "deriveMaxDevices rt p =
     (let normalized = toLowerCase rt p in
      if normalized = str ''enterprise'' then 100
      else if normalized = str ''business'' then 10
      else 1)"

text \<open>\<open>segment()\<close>: the n-th call of \<open>randomBytes(2)\<close>, in upper-case hex.\<close>

definition segment :: "runtime \<Rightarrow> nat \<Rightarrow> jsstring" where
  "segment rt n = toUpperCase (hexEncode [fst (randomBytes2 rt n), snd (randomBytes2 rt n)])"

definition buildLicenseKey :: "runtime \<Rightarrow> jsstring \<Rightarrow> world \<Rightarrow> jsstring \<times> world" where
  "buildLicenseKey rt pfx w =
     (let normalizedPrefix = (if suffix (str ''-'') pfx then pfx else pfx @ str ''-'');
          n = randomCalls w
      in (normalizedPrefix @ segment rt n @ str ''-'' @ segment rt (n + 1) @ str ''-''
            @ segment rt (n + 2) @ str ''-'' @ segment rt (n + 3),
          w\<lparr>randomCalls := n + 4\<rparr>))"

record PaddleWebhookPayload =
  eventId :: jsstring
  eventType :: jsstring
  data :: UnknownRecord

definition parsePaddlePayload :: "runtime \<Rightarrow> jsstring \<Rightarrow> error + PaddleWebhookPayload" where
  "parsePaddlePayload rt rawBody =
     (case jsonParse rt rawBody of
        None \<Rightarrow> Inl (LicenseHttpError 400 ''PADDLE_INVALID_PAYLOAD''
                      ''Paddle webhook payload must be valid JSON'' None)
      | Some parsed \<Rightarrow>
          (case asRecord (Some parsed) of
             None \<Rightarrow> Inl (LicenseHttpError 400 ''PADDLE_INVALID_PAYLOAD''
                           ''Paddle webhook payload must be an object'' None)
           | Some root' \<Rightarrow>
               (let d = (case asRecord (map_of root' (str ''data'')) of None \<Rightarrow> [] | Some r \<Rightarrow> r) in
                case readString (map_of root' (str ''event_id'')) of
                  None \<Rightarrow> Inl (LicenseHttpError 400 ''PADDLE_INVALID_PAYLOAD''
                                ''Paddle webhook payload is missing event_id or event_type'' None)
                | Some eid \<Rightarrow>
                    (case readString (map_of root' (str ''event_type'')) of
                       None \<Rightarrow> Inl (LicenseHttpError 400 ''PADDLE_INVALID_PAYLOAD''
                                     ''Paddle webhook payload is missing event_id or event_type'' None)
                     | Some ety \<Rightarrow> Inr \<lparr>eventId = eid, eventType = ety, data = d\<rparr>))))"

record ParsedPaddleSignature =
  timestamp :: jsstring
  signature :: jsstring

text \<open>The body of the loop over the pairs of the header; the state is the pair of
  \<open>timestamp\<close> and \<open>receivedSignature\<close>, \<open>None\<close> for \<open>null\<close>.\<close>

definition signaturePairStep ::
  "jsstring option \<times> jsstring option \<Rightarrow> jsstring \<Rightarrow> jsstring option \<times> jsstring option" where
  "signaturePairStep st pair =
     (case splitOn (\<lambda>c. c = chr (CHR ''='')) pair of
        [] \<Rightarrow> st
      | k # rest \<Rightarrow>
          if k = [] \<or> rest = [] then st
          else
            let v = trim (joinWith (str ''='') rest);
                ts = (if k = str ''ts'' then Some v else fst st);
                h1 = (if k = str ''h1'' then Some v else snd st)
            in (ts, h1))"

definition parsePaddleSignatureHeader :: "jsstring option \<Rightarrow> error + ParsedPaddleSignature" where
  "parsePaddleSignatureHeader signatureHeader =
     (case signatureHeader of
        None \<Rightarrow> Inl (LicenseHttpError 401 ''PADDLE_SIGNATURE_MISSING''
                      ''Paddle webhook signature is missing'' None)
      | Some h \<Rightarrow>
          if h = [] then Inl (LicenseHttpError 401 ''PADDLE_SIGNATURE_MISSING''
                               ''Paddle webhook signature is missing'' None)
          else
            let signaturePairs =
                  filter (\<lambda>part. length part > 0)
                    (map trim (splitOn (\<lambda>c. c = chr (CHR '';'') \<or> c = chr (CHR '','')) h))
            in (case foldl signaturePairStep (None, None) signaturePairs of
                  (Some ts, Some h1) \<Rightarrow>
                    if ts = [] \<or> h1 = [] then
                      Inl (LicenseHttpError 401 ''PADDLE_SIGNATURE_INVALID''
                             ''Paddle webhook signature header is malformed'' None)
                    else Inr \<lparr>timestamp = ts, signature = h1\<rparr>
                | _ \<Rightarrow> Inl (LicenseHttpError 401 ''PADDLE_SIGNATURE_INVALID''
                              ''Paddle webhook signature header is malformed'' None)))"

fun firstSome :: "('a \<Rightarrow> 'b option) \<Rightarrow> 'a list \<Rightarrow> 'b option" where
  "firstSome f [] = None"
| "firstSome f (c # cs) = (case f c of Some v \<Rightarrow> Some v | None \<Rightarrow> firstSome f cs)"

definition extractSubscriptionId :: "UnknownRecord \<Rightarrow> jsstring option" where
  "extractSubscriptionId d =
     firstSome readString
       [map_of d (str ''id''), map_of d (str ''subscription_id''), readNestedValue d [str ''subscription'', str ''id'']]"

definition extractExpiryDate :: "runtime \<Rightarrow> int \<Rightarrow> UnknownRecord \<Rightarrow> int" where
  "extractExpiryDate rt now d =
     (case firstSome (readDate rt)
             [readNestedValue d [str ''current_billing_period'', str ''ends_at''],
              map_of d (str ''next_billed_at''),
              readNestedValue d [str ''billing_period'', str ''ends_at''],
              readNestedValue d [str ''scheduled_change'', str ''effective_at'']] of
        Some v \<Rightarrow> v
      | None \<Rightarrow> now + 365 * 24 * 60 * 60 * 1000)"

text \<open>\<open>record?.name\<close>\<close>

definition optProp :: "UnknownRecord option \<Rightarrow> jsstring \<Rightarrow> json option" where
  "optProp r name = (case r of None \<Rightarrow> None | Some props \<Rightarrow> map_of props name)"

definition resolvePlan :: "runtime \<Rightarrow> UnknownRecord \<Rightarrow> jsstring" where
  "resolvePlan rt d =
     (let customData = asRecord (map_of d (str ''custom_data'')) in
      case readString (optProp customData (str ''plan'')) of
        Some customPlan \<Rightarrow> customPlan
      | None \<Rightarrow>
          let firstItem = (case map_of d (str ''items'') of
                             Some (JArray (x # _)) \<Rightarrow> Some x
                           | _ \<Rightarrow> None);
              firstItemRecord = asRecord firstItem;
              price = asRecord (optProp firstItemRecord (str ''price''));
              priceId = (case readString (optProp price (str ''id'')) of
                           Some p \<Rightarrow> Some p
                         | None \<Rightarrow> readString (optProp firstItemRecord (str ''price_id'')))
          in derivePlanFromPriceId rt priceId)"

definition extractEmail :: "UnknownRecord \<Rightarrow> jsstring option" where
  "extractEmail d =
     (let customer = asRecord (map_of d (str ''customer''));
          customData = asRecord (map_of d (str ''custom_data''))
      in firstSome readString
           [map_of d (str ''email''), optProp customer (str ''email''), optProp customData (str ''email'')])"

definition mapDeactivationStatus :: "jsstring \<Rightarrow> jsstring" where
  "mapDeactivationStatus ety =
     (if ety = str ''subscription.expired'' then str ''expired''
      else if ety = str ''subscription.paused'' then str ''paused''
      else str ''canceled'')"

section \<open>The statements that the service sends to the datastore\<close>

text \<open>The datastore is its two tables with the unique constraints of the schema on
  \<open>licenses.key\<close>, \<open>licenses.paddle_subscription_id\<close> and
  \<open>processed_events.event_id\<close>. An insert of a license checks the values against the
  types of the columns before it looks for a conflict. Of the types of the columns, this
  check is what the model has; the length of an event id (\<open>varchar(128)\<close>) and failures
  of the connection are not part of the model.\<close>

text \<open>\<open>db.select().from(licenses).where(eq(licenses.paddleSubscriptionId, sid)).limit(1)\<close>\<close>

definition selectLicenseBySubscription :: "jsstring \<Rightarrow> world \<Rightarrow> license list \<times> world" where
  "selectLicenseBySubscription sid w =
     (take 1 (filter (\<lambda>l. paddleSubscriptionId l = Some sid) (licenses w)),
      emit (DbSelectLicenseBySubscription sid) w)"

text \<open>\<open>insert(processedEvents).values({eventId, source: "paddle"}).onConflictDoNothing(eventId)
  .returning(id)\<close>: the list of the ids of the rows inserted.\<close>

definition insertProcessedEvent :: "jsstring \<Rightarrow> int \<Rightarrow> world \<Rightarrow> nat list \<times> world" where
  "insertProcessedEvent eid now w =
     (if eid \<in> set (map pe_eventId (processedEvents w)) then
        ([], emit (DbInsertProcessedEvent eid) w)
      else
        ([nextId w],
         emit (DbInsertProcessedEvent eid)
           (w\<lparr>processedEvents := processedEvents w @
                 [\<lparr>pe_id = nextId w, pe_eventId = eid, pe_source = ''paddle'',
                   pe_processedAt = now\<rparr>],
              nextId := nextId w + 1\<rparr>)))"

text \<open>\<open>delete(processedEvents).where(eq(processedEvents.eventId, eid))\<close>\<close>

definition deleteProcessedEvent :: "jsstring \<Rightarrow> world \<Rightarrow> world" where
  "deleteProcessedEvent eid w =
     emit (DbDeleteProcessedEvent eid)
       (w\<lparr>processedEvents := filter (\<lambda>r. pe_eventId r \<noteq> eid) (processedEvents w)\<rparr>)"

text \<open>The length of a text as the datastore counts it, in characters: a surrogate pair
  is one character.\<close>

definition isHighSurrogate :: "16 word \<Rightarrow> bool" where
  "isHighSurrogate c = (0xD800 \<le> c \<and> c \<le> 0xDBFF)"

definition isLowSurrogate :: "16 word \<Rightarrow> bool" where
  "isLowSurrogate c = (0xDC00 \<le> c \<and> c \<le> 0xDFFF)"

fun charLength :: "jsstring \<Rightarrow> nat" where
  "charLength (c # d # cs) =
     (if isHighSurrogate c \<and> isLowSurrogate d then Suc (charLength cs)
      else Suc (charLength (d # cs)))"
| "charLength [c] = 1"
| "charLength [] = 0"

text \<open>The values that the datastore does not store in a row of \<open>licenses\<close>: a key of more
  than the 64 characters of \<open>varchar(64)\<close> (a key that the service generates ends in a
  hex digit, so the rule that drops excess spaces never applies), and what it refuses for
  the type of another column.\<close>

definition licenseRefused :: "runtime \<Rightarrow> InsertLicense \<Rightarrow> bool" where
  "licenseRefused rt v = (charLength (key v) > 64 \<or> refusesLicense rt v)"

text \<open>\<open>insert(licenses).values(v).onConflictDoNothing(key).returning(id)\<close>. Values that
  the datastore does not store are an error of the statement. A conflict on
  the key inserts nothing; the other unique column, \<open>paddle_subscription_id\<close>, is not
  the conflict target, so a duplicate of it is an error of the statement.\<close>

definition insertLicense ::
  "runtime \<Rightarrow> InsertLicense \<Rightarrow> int \<Rightarrow> world \<Rightarrow> (error + nat list) \<times> world" where
  "insertLicense rt v now w =
     (if licenseRefused rt v then
        (Inl ValueRefused, emit (DbInsertLicense (key v)) w)
      else if key v \<in> set (map key (licenses w)) then
        (Inr [], emit (DbInsertLicense (key v)) w)
      else if paddleSubscriptionId v \<noteq> None
              \<and> paddleSubscriptionId v \<in> set (map paddleSubscriptionId (licenses w)) then
        (Inl (UniqueViolation ''licenses_paddle_subscription_id_unique''),
         emit (DbInsertLicense (key v)) w)
      else
        (Inr [nextId w],
         emit (DbInsertLicense (key v))
           (w\<lparr>licenses := licenses w @
                 [InsertLicense.extend v
                    (license.fields (nextId w) now now)],
              nextId := nextId w + 1\<rparr>)))"

text \<open>\<open>update(licenses).set(...).where(eq(licenses.id, i))\<close>\<close>

definition updateLicenseById :: "nat \<Rightarrow> (license \<Rightarrow> license) \<Rightarrow> world \<Rightarrow> world" where
  "updateLicenseById i f w =
     emit (DbUpdateLicenseById i)
       (w\<lparr>licenses := map (\<lambda>l. if id' l = i then f l else l) (licenses w)\<rparr>)"

text \<open>\<open>update(licenses).set(...).where(eq(licenses.paddleSubscriptionId, sid))\<close>\<close>

definition updateLicenseBySubscription ::
  "jsstring \<Rightarrow> (license \<Rightarrow> license) \<Rightarrow> world \<Rightarrow> world" where
  "updateLicenseBySubscription sid f w =
     emit (DbUpdateLicenseBySubscription sid)
       (w\<lparr>licenses := map (\<lambda>l. if paddleSubscriptionId l = Some sid then f l else l)
                          (licenses w)\<rparr>)"

section \<open>license.service.ts: validateLicenseKey\<close>

record LicenseService =
  configService :: "string \<Rightarrow> jsstring option"
  hasDb :: bool

definition isEnforced :: "LicenseService \<Rightarrow> bool" where
  "isEnforced svc = (configService svc ''LICENSE_ENFORCE'' = Some (str ''true''))"

definition invalid ::
  "nat \<Rightarrow> string \<Rightarrow> string \<Rightarrow> UnknownRecord option \<Rightarrow> LicenseValidationResult" where
  "invalid sc c m d =
     \<lparr>valid = False, statusCode = sc, message = m, code = c, details = d, license = None\<rparr>"

definition validateLicenseKey ::
  "LicenseService \<Rightarrow> runtime \<Rightarrow> int \<Rightarrow> jsstring \<Rightarrow> world \<Rightarrow> LicenseValidationResult \<times> world" where
  "validateLicenseKey svc rt now k w =
     (let normalizedKey = trim k in
      if normalizedKey = [] then
        (invalid 401 ''LICENSE_REQUIRED'' ''License key is required for hosted access'' None, w)
      else
        let expectedPrefix = orDefault (configService svc ''LICENSE_KEY_PREFIX'') (str ''AXON-'') in
        if expectedPrefix \<noteq> [] \<and> \<not> prefix expectedPrefix normalizedKey then
          (invalid 401 ''LICENSE_INVALID'' ''Invalid license key format''
             (Some [(str ''expectedPrefix'', JString expectedPrefix)]), w)
        else if \<not> hasDb svc then
          (invalid 503 ''LICENSE_BACKEND_UNAVAILABLE'' ''License backend is not available'' None, w)
        else
          (case selectLicenseByKey normalizedKey w of
             (rows, w1) \<Rightarrow>
               (case rows of
                  [] \<Rightarrow> (invalid 401 ''LICENSE_INVALID'' ''Invalid license key'' None, w1)
                | current # _ \<Rightarrow>
                    if status current \<noteq> str ''active'' then
                      (invalid 403 ''LICENSE_BLOCKED'' ''License is not active''
                         (Some [(str ''status'', JString (status current))]), w1)
                    else if expiresAt current \<le> now then
                      (invalid 402 ''LICENSE_EXPIRED'' ''License has expired''
                         (Some [(str ''expiresAt'', JString (toISOString rt (expiresAt current)))]), w1)
                    else
                      (\<lparr>valid = True, statusCode = 200, message = ''License is valid'',
                        code = ''LICENSE_VALID'', details = None, license = Some current\<rparr>, w1))))"

section \<open>license.service.ts: Paddle webhooks\<close>

datatype PaddleAction = Activated | Updated | Deactivated | Ignored | Duplicate

record PaddleWebhookResult =
  ok :: bool
  res_eventId :: jsstring
  res_eventType :: jsstring
  action :: PaddleAction

definition backendUnavailable :: error where
  "backendUnavailable =
     LicenseHttpError 503 ''LICENSE_BACKEND_UNAVAILABLE'' ''License backend is not available'' None"

definition signatureInvalid :: error where
  "signatureInvalid =
     LicenseHttpError 401 ''PADDLE_SIGNATURE_INVALID'' ''Paddle webhook signature does not match'' None"

text \<open>\<open>now\<close> is the value of \<open>Date.now()\<close>, a time value: an integer of at most
  8.64e15 in magnitude, for which \<open>Math.floor(now / 1000)\<close> is the floor of the exact
  quotient and the difference to a finite timestamp rounds to a finite double. The
  expiry is checked only when \<open>Number.isFinite\<close> holds of both numbers.\<close>

definition verifyPaddleSignature ::
  "LicenseService \<Rightarrow> runtime \<Rightarrow> int \<Rightarrow> jsstring \<Rightarrow> jsstring option \<Rightarrow> error + unit" where
  "verifyPaddleSignature svc rt now rawBody signatureHeader =
     (case configService svc ''PADDLE_WEBHOOK_SECRET'' of
        None \<Rightarrow> Inl (LicenseHttpError 503 ''PADDLE_NOT_CONFIGURED''
                      ''Paddle webhook secret is not configured'' None)
      | Some secret \<Rightarrow>
          if secret = [] then
            Inl (LicenseHttpError 503 ''PADDLE_NOT_CONFIGURED''
                   ''Paddle webhook secret is not configured'' None)
          else
            (case parsePaddleSignatureHeader signatureHeader of
               Inl e \<Rightarrow> Inl e
             | Inr parsedSignature \<Rightarrow>
                 let toleranceSeconds =
                       parseInt10 (orDefault (configService svc ''PADDLE_WEBHOOK_TOLERANCE_SEC'') (str ''300''));
                     timestampSeconds = parseInt10 (timestamp parsedSignature);
                     expired =
                       (case toleranceSeconds of
                          Finite tol \<Rightarrow>
                            (case timestampSeconds of
                               Finite ts \<Rightarrow>
                                 if tol > 0 then
                                   (let drift = \<bar>roundToDouble (now div 1000 - ts)\<bar>
                                    in if drift > tol then Some (drift, tol) else None)
                                 else None
                             | _ \<Rightarrow> None)
                        | _ \<Rightarrow> None)
                 in
                   (case expired of
                     Some (drift, tol) \<Rightarrow>
                       Inl (LicenseHttpError 401 ''PADDLE_SIGNATURE_EXPIRED''
                              ''Paddle webhook signature timestamp is outside allowed skew''
                              (Some [(str ''driftSeconds'', JNumber (of_int drift)),
                                     (str ''toleranceSeconds'', JNumber (of_int tol))]))
                   | None \<Rightarrow>
                     let payloadToSign = timestamp parsedSignature @ str '':'' @ rawBody;
                         expectedSignature =
                           hexEncode (digestBytes (hmacSha256 rt secret payloadToSign));
                         receivedBuffer = hexDecode (signature parsedSignature);
                         expectedBuffer = hexDecode expectedSignature
                     in
                       if length receivedBuffer = 0
                          \<or> length receivedBuffer \<noteq> length expectedBuffer then
                         Inl signatureInvalid
                       else
                         (case timingSafeEqual receivedBuffer expectedBuffer of
                            Inl e \<Rightarrow> Inl e
                          | Inr isValid \<Rightarrow> if \<not> isValid then Inl signatureInvalid else Inr ()))))"

text \<open>The loop of \<open>upsertActiveLicense\<close> that generates a key and inserts the row
  \<open>v\<close> under it, from attempt number \<open>attempt\<close> on.\<close>

function insertGeneratedKey ::
  "runtime \<Rightarrow> int \<Rightarrow> jsstring \<Rightarrow> InsertLicense \<Rightarrow> nat \<Rightarrow> nat \<Rightarrow> world \<Rightarrow> (error + unit) \<times> world" where
  "insertGeneratedKey rt now keyPrefix v maxAttempts attempt w =
     (if attempt < maxAttempts then
        (let (generatedKey, w1) = buildLicenseKey rt keyPrefix w;
             (inserted, w2) = insertLicense rt (v\<lparr>key := generatedKey\<rparr>) now w1
         in case inserted of
              Inl e \<Rightarrow> (Inl e, w2)
            | Inr ids \<Rightarrow>
                if length ids > 0 then (Inr (), w2)
                else insertGeneratedKey rt now keyPrefix v maxAttempts (attempt + 1) w2)
      else
        (Inl (LicenseHttpError 500 ''LICENSE_KEY_GENERATION_FAILED''
                ''Unable to generate a unique license key'' None), w))"
  by pat_completeness auto
termination
  by (relation "measure (\<lambda>(rt, now, keyPrefix, v, maxAttempts, attempt, w). maxAttempts - attempt)")
     auto

declare insertGeneratedKey.simps [simp del]

definition upsertActiveLicense ::
  "LicenseService \<Rightarrow> runtime \<Rightarrow> int \<Rightarrow> UnknownRecord \<Rightarrow> world \<Rightarrow> (error + unit) \<times> world" where
  "upsertActiveLicense svc rt now d w =
     (if \<not> hasDb svc then (Inl backendUnavailable, w)
      else
        (case extractSubscriptionId d of
           None \<Rightarrow>
             (Inl (LicenseHttpError 400 ''PADDLE_SUBSCRIPTION_ID_MISSING''
                     ''Paddle event is missing subscription id'' None), w)
         | Some subscriptionId \<Rightarrow>
             let plan' = resolvePlan rt d;
                 maxDevices' = deriveMaxDevices rt plan';
                 expiresAt' = extractExpiryDate rt now d;
                 email' = extractEmail d;
                 status' = (case readString (map_of d (str ''status'')) of
                              Some s \<Rightarrow> s
                            | None \<Rightarrow> str ''active'');
                 (existing, w1) = selectLicenseBySubscription subscriptionId w
             in
               (case existing of
                  existingLicense # _ \<Rightarrow>
                    (Inr (),
                     updateLicenseById (id' existingLicense)
                       (\<lambda>l. l\<lparr>email := (case email' of
                                           Some e \<Rightarrow> Some e
                                         | None \<Rightarrow> email existingLicense),
                                plan := plan',
                                maxDevices := maxDevices',
                                status := status',
                                expiresAt := expiresAt',
                                updatedAt := now\<rparr>) w1)
                | [] \<Rightarrow>
                    let keyPrefix = orDefault (configService svc ''LICENSE_KEY_PREFIX'') (str ''AXON-'');
                        maxAttempts = 5
                    in insertGeneratedKey rt now keyPrefix
                         \<lparr>key = [], email = email', status = status', plan = plan',
                          maxDevices = maxDevices', paddleSubscriptionId = Some subscriptionId,
                          expiresAt = expiresAt'\<rparr>
                         maxAttempts 0 w1)))"

definition deactivateLicense ::
  "LicenseService \<Rightarrow> int \<Rightarrow> UnknownRecord \<Rightarrow> jsstring \<Rightarrow> world \<Rightarrow> (error + unit) \<times> world" where
  "deactivateLicense svc now d ety w =
     (if \<not> hasDb svc then (Inl backendUnavailable, w)
      else
        (case extractSubscriptionId d of
           None \<Rightarrow> (Inr (), w)
         | Some subscriptionId \<Rightarrow>
             let status' = mapDeactivationStatus ety
             in (Inr (),
                 updateLicenseBySubscription subscriptionId
                   (\<lambda>l. l\<lparr>status := status', updatedAt := now\<rparr>) w)))"

definition applyPaddleLifecycle ::
  "LicenseService \<Rightarrow> runtime \<Rightarrow> int \<Rightarrow> PaddleWebhookPayload \<Rightarrow> world
     \<Rightarrow> (error + PaddleAction) \<times> world" where
  "applyPaddleLifecycle svc rt now payload w =
     (let ety = eventType payload;
          w0 = emit (ApplyLifecycle ety) w
      in
        if ety \<in> PADDLE_ACTIVATING_EVENTS then
          (case upsertActiveLicense svc rt now (data payload) w0 of
             (Inl e, w1) \<Rightarrow> (Inl e, w1)
           | (Inr _, w1) \<Rightarrow>
               (Inr (if ety = str ''subscription.created'' then Activated else Updated), w1))
        else if ety \<in> PADDLE_DEACTIVATING_EVENTS then
          (case deactivateLicense svc now (data payload) ety w0 of
             (Inl e, w1) \<Rightarrow> (Inl e, w1)
           | (Inr _, w1) \<Rightarrow> (Inr Deactivated, w1))
        else (Inr Ignored, w0))"

definition processPaddleWebhook ::
  "LicenseService \<Rightarrow> runtime \<Rightarrow> int \<Rightarrow> jsstring \<Rightarrow> jsstring option \<Rightarrow> world
     \<Rightarrow> (error + PaddleWebhookResult) \<times> world" where
  "processPaddleWebhook svc rt now rawBody signatureHeader w =
     (case verifyPaddleSignature svc rt now rawBody signatureHeader of
        Inl e \<Rightarrow> (Inl e, w)
      | Inr _ \<Rightarrow>
          (case parsePaddlePayload rt rawBody of
             Inl e \<Rightarrow> (Inl e, w)
           | Inr payload \<Rightarrow>
               if \<not> hasDb svc then (Inl backendUnavailable, w)
               else
                 (case insertProcessedEvent (eventId payload) now w of
                    (lock, w1) \<Rightarrow>
                      if length lock = 0 then
                        (Inr \<lparr>ok = True, res_eventId = eventId payload,
                              res_eventType = eventType payload, action = Duplicate\<rparr>, w1)
                      else
                        (case applyPaddleLifecycle svc rt now payload w1 of
                           (Inr act, w2) \<Rightarrow>
                             (Inr \<lparr>ok = True, res_eventId = eventId payload,
                                   res_eventType = eventType payload, action = act\<rparr>, w2)
                         | (Inl e, w2) \<Rightarrow>
                             (Inl e, deleteProcessedEvent (eventId payload) w2)))))"

section \<open>license.middleware.ts\<close>

datatype headerValue = HString jsstring | HArray "jsstring list"

fun readHeaderValue :: "headerValue option \<Rightarrow> jsstring" where
  "readHeaderValue (Some (HString v)) = v"
| "readHeaderValue (Some (HArray (first # _))) = first"
| "readHeaderValue _ = []"

record LicensedRequest =
  xLicenseKey :: "headerValue option"
  req_license :: "license option"

text \<open>The body of a denial: \<open>statusCode\<close>, \<open>message\<close>, \<open>code\<close>, \<open>details\<close>
  (\<open>None\<close> is \<open>null\<close>). The middleware either calls \<open>next()\<close> on the request or
  responds with a status and such a body.\<close>

datatype denial = Denial nat string string "UnknownRecord option"

datatype outcome = Next LicensedRequest | Respond nat denial

text \<open>\<open>LicenseMiddleware.use\<close> over the two methods of the injected service that it calls.\<close>

definition useWith ::
  "bool \<Rightarrow> (jsstring \<Rightarrow> world \<Rightarrow> LicenseValidationResult \<times> world) \<Rightarrow> LicensedRequest \<Rightarrow> world
     \<Rightarrow> outcome \<times> world" where
  "useWith enforced validate req w =
     (if \<not> enforced then (Next req, w)
      else
        let licenseKey = trim (readHeaderValue (xLicenseKey req)) in
        if licenseKey = [] then
          (Respond 401
             (Denial 401 ''License key is required for hosted access'' ''LICENSE_REQUIRED'' None), w)
        else
          (case validate licenseKey w of
             (result, w1) \<Rightarrow>
               if \<not> valid result then
                 (Respond (statusCode result)
                    (Denial (statusCode result) (message result) (code result) (details result)),
                  w1)
               else (Next (req\<lparr>req_license := license result\<rparr>), w1)))"

definition use :: "LicenseService \<Rightarrow> runtime \<Rightarrow> int \<Rightarrow> LicensedRequest \<Rightarrow> world \<Rightarrow> outcome \<times> world" where
  "use svc rt now req w = useWith (isEnforced svc) (validateLicenseKey svc rt now) req w"

section \<open>The contract of the signature verifier\<close>

text \<open>
  The checks of the verifier, each as the contract words it: the configured tolerance
  (default 300 seconds), the drift \<open>|now - ts|\<close> of a timestamp that parses, to a
  finite number and in the arithmetic of doubles, the
  expiry (tolerance greater than 0 and drift beyond it), and the mismatch (the
  hex-decoded \<open>h1\<close> differs in length or content from the HMAC-SHA256 of
  \<open><ts>:<rawBody>\<close> under the secret). Two orders of the checks follow:
  \<open>signatureContractAsStated\<close> raises the mismatch before the expiry,
  \<open>signatureContractInCodeOrder\<close> the expiry before the mismatch.
\<close>

text \<open>
  The header in the contract's words: its parts are separated by semicolons or commas and
  trimmed, and the empty ones dropped; a part is a \<open>key=value\<close> pair when it has an
  equals sign after a key that is not empty, and its value is the trimmed text after
  the first equals sign; the value of a field is that of the last pair with its key.
\<close>

definition headerParts :: "jsstring \<Rightarrow> jsstring list" where
  "headerParts h =
     filter (\<lambda>part. part \<noteq> []) (map trim (splitOn (\<lambda>c. c = chr (CHR '';'') \<or> c = chr (CHR '','')) h))"

definition pairKey :: "jsstring \<Rightarrow> jsstring" where
  "pairKey part = takeWhile (\<lambda>c. c \<noteq> chr (CHR ''='')) part"

definition pairValue :: "jsstring \<Rightarrow> jsstring" where
  "pairValue part = trim (drop (length (pairKey part) + 1) part)"

definition isPair :: "jsstring \<Rightarrow> bool" where
  "isPair part = (chr (CHR ''='') \<in> set part \<and> pairKey part \<noteq> [])"

definition fieldIn :: "jsstring \<Rightarrow> jsstring list \<Rightarrow> jsstring option" where
  "fieldIn name parts =
     (let ps = filter (\<lambda>part. isPair part \<and> pairKey part = name) parts
      in if ps = [] then None else Some (pairValue (last ps)))"

definition headerField :: "jsstring \<Rightarrow> jsstring \<Rightarrow> jsstring option" where
  "headerField name h = fieldIn name (headerParts h)"

definition signatureMissing :: error where
  "signatureMissing =
     LicenseHttpError 401 ''PADDLE_SIGNATURE_MISSING'' ''Paddle webhook signature is missing'' None"

definition signatureMalformed :: error where
  "signatureMalformed =
     LicenseHttpError 401 ''PADDLE_SIGNATURE_INVALID''
       ''Paddle webhook signature header is malformed'' None"

definition signatureHeaderContract :: "jsstring option \<Rightarrow> error + ParsedPaddleSignature" where
  "signatureHeaderContract signatureHeader =
     (case signatureHeader of
        None \<Rightarrow> Inl signatureMissing
      | Some h \<Rightarrow>
          if h = [] then Inl signatureMissing
          else
            (case headerField (str ''ts'') h of
               None \<Rightarrow> Inl signatureMalformed
             | Some ts \<Rightarrow>
                 (case headerField (str ''h1'') h of
                    None \<Rightarrow> Inl signatureMalformed
                  | Some h1 \<Rightarrow>
                      if ts = [] \<or> h1 = [] then Inl signatureMalformed
                      else Inr \<lparr>timestamp = ts, signature = h1\<rparr>)))"

definition finiteValue :: "number \<Rightarrow> int option" where
  "finiteValue x = (case x of Finite v \<Rightarrow> Some v | _ \<Rightarrow> None)"

definition contractTolerance :: "LicenseService \<Rightarrow> int option" where
  "contractTolerance svc =
     finiteValue
       (parseInt10 (orDefault (configService svc ''PADDLE_WEBHOOK_TOLERANCE_SEC'') (str ''300'')))"

definition contractDrift :: "int \<Rightarrow> jsstring \<Rightarrow> int option" where
  "contractDrift now ts =
     (case finiteValue (parseInt10 ts) of
        None \<Rightarrow> None
      | Some t \<Rightarrow> Some \<bar>roundToDouble (now div 1000 - t)\<bar>)"

definition contractExpired :: "LicenseService \<Rightarrow> int \<Rightarrow> jsstring \<Rightarrow> (int \<times> int) option" where
  "contractExpired svc now ts =
     (case contractTolerance svc of
        None \<Rightarrow> None
      | Some tol \<Rightarrow>
          (case contractDrift now ts of
             None \<Rightarrow> None
           | Some drift \<Rightarrow> if tol > 0 \<and> drift > tol then Some (drift, tol) else None))"

definition contractMismatch :: "runtime \<Rightarrow> jsstring \<Rightarrow> ParsedPaddleSignature \<Rightarrow> jsstring \<Rightarrow> bool" where
  "contractMismatch rt secret p rawBody =
     (hexDecode (signature p) \<noteq> digestBytes (hmacSha256 rt secret (timestamp p @ str '':'' @ rawBody)))"

definition signatureExpired :: "int \<times> int \<Rightarrow> error" where
  "signatureExpired dt =
     LicenseHttpError 401 ''PADDLE_SIGNATURE_EXPIRED''
       ''Paddle webhook signature timestamp is outside allowed skew''
       (Some [(str ''driftSeconds'', JNumber (of_int (fst dt))),
              (str ''toleranceSeconds'', JNumber (of_int (snd dt)))])"

definition notConfigured :: error where
  "notConfigured = LicenseHttpError 503 ''PADDLE_NOT_CONFIGURED''
                      ''Paddle webhook secret is not configured'' None"

definition signatureContractAsStated ::
  "LicenseService \<Rightarrow> runtime \<Rightarrow> int \<Rightarrow> jsstring \<Rightarrow> jsstring option \<Rightarrow> error + unit" where
  "signatureContractAsStated svc rt now rawBody signatureHeader =
     (let secret = orDefault (configService svc ''PADDLE_WEBHOOK_SECRET'') [] in
      if secret = [] then Inl notConfigured
      else
        (case signatureHeaderContract signatureHeader of
           Inl e \<Rightarrow> Inl e
         | Inr p \<Rightarrow>
             if contractMismatch rt secret p rawBody then Inl signatureInvalid
             else
               (case contractExpired svc now (timestamp p) of
                  Some dt \<Rightarrow> Inl (signatureExpired dt)
                | None \<Rightarrow> Inr ())))"

definition signatureContractInCodeOrder ::
  "LicenseService \<Rightarrow> runtime \<Rightarrow> int \<Rightarrow> jsstring \<Rightarrow> jsstring option \<Rightarrow> error + unit" where
  "signatureContractInCodeOrder svc rt now rawBody signatureHeader =
     (let secret = orDefault (configService svc ''PADDLE_WEBHOOK_SECRET'') [] in
      if secret = [] then Inl notConfigured
      else
        (case signatureHeaderContract signatureHeader of
           Inl e \<Rightarrow> Inl e
         | Inr p \<Rightarrow>
             (case contractExpired svc now (timestamp p) of
                Some dt \<Rightarrow> Inl (signatureExpired dt)
              | None \<Rightarrow>
                  if contractMismatch rt secret p rawBody then Inl signatureInvalid
                  else Inr ())))"

section \<open>Observations on a state\<close>

text \<open>The event ids that the ledger holds, and the number of applications of the lifecycle
  engine that the effects record.\<close>

definition ledger :: "world \<Rightarrow> jsstring set" where
  "ledger w = set (map pe_eventId (processedEvents w))"

fun isLifecycleApplication :: "effect \<Rightarrow> bool" where
  "isLifecycleApplication (ApplyLifecycle _) = True"
| "isLifecycleApplication _ = False"

definition lifecycleApplications :: "world \<Rightarrow> nat" where
  "lifecycleApplications w = length (filter isLifecycleApplication (effects w))"

section \<open>The generated license key\<close>

text \<open>
  The key as the specification words it: the configured prefix (with a dash appended when
  it does not end in one), then four groups, each the upper-case hex of two random bytes,
  separated by dashes. \<open>keyFrom rt pfx n\<close> is the key built from the random calls
  number \<open>n\<close> to \<open>n + 3\<close>; \<open>insertAttempts\<close> counts the license inserts sent.
\<close>

definition hexGroup :: "8 word \<times> 8 word \<Rightarrow> jsstring" where
  "hexGroup bytes =
     map (\<lambda>n. (str ''0123456789ABCDEF'') ! n)
       [unat (fst bytes) div 16, unat (fst bytes) mod 16,
        unat (snd bytes) div 16, unat (snd bytes) mod 16]"

definition keyFrom :: "runtime \<Rightarrow> jsstring \<Rightarrow> nat \<Rightarrow> jsstring" where
  "keyFrom rt pfx n =
     pfx @ (if suffix (str ''-'') pfx then [] else str ''-'')
       @ hexGroup (randomBytes2 rt n) @ str ''-'' @ hexGroup (randomBytes2 rt (n + 1)) @ str ''-''
       @ hexGroup (randomBytes2 rt (n + 2)) @ str ''-'' @ hexGroup (randomBytes2 rt (n + 3))"

definition licenseKeys :: "world \<Rightarrow> jsstring set" where
  "licenseKeys w = set (map key (licenses w))"

fun isInsertLicense :: "effect \<Rightarrow> bool" where
  "isInsertLicense (DbInsertLicense _) = True"
| "isInsertLicense _ = False"

definition insertAttempts :: "world \<Rightarrow> nat" where
  "insertAttempts w = length (filter isInsertLicense (effects w))"

definition keyGenerationFailed :: error where
  "keyGenerationFailed =
     LicenseHttpError 500 ''LICENSE_KEY_GENERATION_FAILED''
       ''Unable to generate a unique license key'' None"

section \<open>Example configuration, platform and datastore states\<close>

fun exampleConfig :: "string \<Rightarrow> jsstring option" where
  "exampleConfig k =
     (if k = ''LICENSE_ENFORCE'' then Some (str ''true'')
      else if k = ''PADDLE_WEBHOOK_SECRET'' then Some (str ''whsec'')
      else None)"

definition exampleService :: LicenseService where
  "exampleService = \<lparr>configService = exampleConfig, hasDb = True\<rparr>"

text \<open>The same service with a prefix of 46 characters configured for its keys.\<close>

definition longPrefix :: jsstring where
  "longPrefix = str ''AXON-ENTERPRISE-PRODUCTION-EUROPE-WEST-REGION-''"

fun longPrefixConfig :: "string \<Rightarrow> jsstring option" where
  "longPrefixConfig k =
     (if k = ''LICENSE_KEY_PREFIX'' then Some longPrefix else exampleConfig k)"

definition longPrefixService :: LicenseService where
  "longPrefixService = \<lparr>configService = longPrefixConfig, hasDb = True\<rparr>"

text \<open>A platform whose HMAC is constantly zero, whose JSON parser knows two webhook bodies,
  whose random bytes make the four segments of the n-th generated key equal to n, and
  whose datastore refuses a license row for the length of its key only.\<close>

definition bodyCreated :: jsstring where
  \<open>bodyCreated =
     (str ''{"event_id":"evt_1","event_type":"subscription.created","data":{"id":"sub_1"}}'')\<close>

definition bodyNoSubscription :: jsstring where
  \<open>bodyNoSubscription = str ''{"event_id":"evt_2","event_type":"subscription.updated","data":{}}''\<close>

fun exampleJsonParse :: "jsstring \<Rightarrow> json option" where
  "exampleJsonParse s =
     (if s = bodyCreated then
        Some (JObject [(str ''event_id'', JString (str ''evt_1'')),
                       (str ''event_type'', JString (str ''subscription.created'')),
                       (str ''data'', JObject [(str ''id'', JString (str ''sub_1''))])])
      else if s = bodyNoSubscription then
        Some (JObject [(str ''event_id'', JString (str ''evt_2'')),
                       (str ''event_type'', JString (str ''subscription.updated'')),
                       (str ''data'', JObject [])])
      else None)"

fun exampleDateParse :: "jsstring \<Rightarrow> int option" where
  "exampleDateParse s = None"

fun exampleToISOString :: "int \<Rightarrow> jsstring" where
  "exampleToISOString t = str ''1970-01-01T00:00:00.000Z''"

fun exampleHmac :: "jsstring \<Rightarrow> jsstring \<Rightarrow> 256 word" where
  "exampleHmac k m = 0"

fun exampleRandomBytes2 :: "nat \<Rightarrow> 8 word \<times> 8 word" where
  "exampleRandomBytes2 n = (0, of_nat (n div 4))"

fun exampleToLowerCase :: "jsstring \<Rightarrow> jsstring" where
  "exampleToLowerCase s = map (\<lambda>c. if 65 \<le> c \<and> c \<le> 90 then c + 32 else c) s"

fun exampleRefusesLicense :: "InsertLicense \<Rightarrow> bool" where
  "exampleRefusesLicense v = False"

definition exampleRuntime :: runtime where
  "exampleRuntime =
     \<lparr>hmacSha256 = exampleHmac, jsonParse = exampleJsonParse, dateParse = exampleDateParse,
      toISOString = exampleToISOString, toLowerCase = exampleToLowerCase,
      randomBytes2 = exampleRandomBytes2, refusesLicense = exampleRefusesLicense\<rparr>"

text \<open>A header that verifies on the example platform at second 1, and one whose \<open>h1\<close>
  is not hex.\<close>

definition validSignatureHeader :: jsstring where
  "validSignatureHeader =
     (str ''ts=1;h1=0000000000000000000000000000000000000000000000000000000000000000'')"

text \<open>The same header with a timestamp of 310 digits, which parses to an infinity, and
  with the timestamp 2^53 + 1, which parses to 2^53.\<close>

definition hugeTimestampHeader :: jsstring where
  "hugeTimestampHeader =
     str ''ts='' @ replicate 310 (chr (CHR ''9''))
       @ str '';h1=0000000000000000000000000000000000000000000000000000000000000000''"

definition roundedTimestampHeader :: jsstring where
  "roundedTimestampHeader =
     (str ''ts=9007199254740993;h1=0000000000000000000000000000000000000000000000000000000000000000'')"

definition nonHexSignature :: ParsedPaddleSignature where
  "nonHexSignature = \<lparr>timestamp = str ''1'', signature = str ''zz''\<rparr>"

definition emptyWorld :: world where
  "emptyWorld = \<lparr>licenses = [], processedEvents = [], nextId = 0, randomCalls = 0, effects = []\<rparr>"

text \<open>A license that is both revoked and expired at time 1000.\<close>

definition revokedLicense :: license where
  "revokedLicense =
     \<lparr>key = str ''AXON-0001-0002-0003-0004'', email = None, status = str ''revoked'', plan = str ''pro'',
      maxDevices = 1, paddleSubscriptionId = Some (str ''sub_1''), expiresAt = 500,
      id' = 0, createdAt = 0, updatedAt = 0\<rparr>"

definition revokedWorld :: world where
  "revokedWorld = emptyWorld\<lparr>licenses := [revokedLicense], nextId := 1\<rparr>"

text \<open>The payloads of the two bodies, and a cancellation of subscription \<open>sub_0\<close>.\<close>

definition createdPayload :: PaddleWebhookPayload where
  "createdPayload =
     \<lparr>eventId = str ''evt_1'', eventType = str ''subscription.created'', data = [(str ''id'', JString (str ''sub_1''))]\<rparr>"

definition noSubscriptionPayload :: PaddleWebhookPayload where
  "noSubscriptionPayload = \<lparr>eventId = str ''evt_2'', eventType = str ''subscription.updated'', data = []\<rparr>"


text \<open>A ledger that already holds \<open>evt_1\<close>.\<close>

definition replayWorld :: world where
  "replayWorld =
     emptyWorld\<lparr>processedEvents :=
                   [\<lparr>pe_id = 0, pe_eventId = str ''evt_1'', pe_source = ''paddle'', pe_processedAt = 0\<rparr>],
                 nextId := 1\<rparr>"

text \<open>An active license of subscription \<open>sub_0\<close> under the first key that the example
  platform generates.\<close>

definition activeLicense :: license where
  "activeLicense =
     \<lparr>key = str ''AXON-0000-0000-0000-0000'', email = None, status = str ''active'', plan = str ''pro'',
      maxDevices = 1, paddleSubscriptionId = Some (str ''sub_0''), expiresAt = 5000,
      id' = 0, createdAt = 0, updatedAt = 0\<rparr>"

definition collisionWorld :: world where
  "collisionWorld = emptyWorld\<lparr>licenses := [activeLicense], nextId := 1\<rparr>"

section \<open>Strings\<close>

lemma unat_chr: "unat (chr c) = of_char c"
proof -
  have "chr c = (of_nat (of_char c) :: 16 word)"
    by (simp add: chr_def of_nat_of_char)
  moreover have "(of_char c :: nat) < 2 ^ 16"
    by (rule less_trans [OF nat_of_char_less_256]) simp
  ultimately show ?thesis
    by (simp add: unat_of_nat del: of_nat_of_char)
qed

lemma chr_eq_iff [simp]: "chr a = chr b \<longleftrightarrow> a = b"
proof
  assume "chr a = chr b"
  then have "(of_char a :: nat) = of_char b"
    by (metis unat_chr)
  then show "a = b" by simp
qed simp

lemma str_eq_iff [simp]: "str a = str b \<longleftrightarrow> a = b"
  unfolding str_def by (simp add: inj_map_eq_map inj_on_def)

lemma str_Nil [simp]: "str [] = []"
  by (simp add: str_def)

lemma str_Cons: "str (c # cs) = chr c # str cs"
  by (simp add: str_def)

lemma str_eq_Nil [simp]: "str s = [] \<longleftrightarrow> s = []"
  by (simp add: str_def)

lemma length_str [simp]: "length (str s) = length s"
  by (simp add: str_def)

section \<open>The built-ins on examples\<close>

text \<open>Trimming strips every white space character and line terminator of the language,
  and not the control or format characters next to them.\<close>

lemma trim_examples:
  "trim ([0x0009, 0x000A, 0x000B, 0x000C, 0x000D, 0x0020, 0x00A0, 0x1680, 0x2000, 0x2001,
          0x2002, 0x2003, 0x2004, 0x2005, 0x2006, 0x2007, 0x2008, 0x2009, 0x200A, 0x2028,
          0x2029, 0x202F, 0x205F, 0x3000, 0xFEFF] @ str ''a b''
         @ [0xFEFF, 0x3000, 0x205F, 0x202F, 0x2029, 0x2028, 0x200A, 0x2009, 0x2008, 0x2007,
            0x2006, 0x2005, 0x2004, 0x2003, 0x2002, 0x2001, 0x2000, 0x1680, 0x00A0, 0x0020,
            0x000D, 0x000C, 0x000B, 0x000A, 0x0009]) = str ''a b''"
  "trim [0x0085] = [0x0085]" "trim [0x180E] = [0x180E]" "trim [0x200B] = [0x200B]"
  "trim [0x001F] = [0x001F]" "trim [0x1FFF] = [0x1FFF]" "trim [0x2060] = [0x2060]"
  by code_simp+

text \<open>\<open>parseInt\<close> skips white space, reads a sign and the digits up to the first other
  character, and rounds to the nearest double, ties to even. The largest finite double is
  2^1024 - 2^971; an integer from 2^1024 - 2^970 on is read as an infinity.\<close>

lemma parseInt10_examples:
  "parseInt10 (str '' -12px'') = Finite (- 12)"
  "parseInt10 (str ''+7'') = Finite 7"
  "parseInt10 (str ''0x10'') = Finite 0"
  "parseInt10 (str ''1e3'') = Finite 1"
  "parseInt10 (str '''') = NaN"
  "parseInt10 (str ''-'') = NaN"
  "parseInt10 (str ''abc'') = NaN"
  "parseInt10 (0x00A0 # str ''300'') = Finite 300"
  "parseInt10 (str ''9007199254740992'') = Finite 9007199254740992"
  "parseInt10 (str ''9007199254740993'') = Finite 9007199254740992"
  "parseInt10 (str ''9007199254740995'') = Finite 9007199254740996"
  "parseInt10 (str ''-9007199254740995'') = Finite (- 9007199254740996)"
  by code_simp+

lemma parseInt10_largest:
  "parseInt10 (str ''179769313486231580793728971405303415079934132710037826936173778980444968292764750946649017977587207096330286416692887910946555547851940402630657488671505820681908902000708383676273854845817711531764475730270069855571366959622842914819860834936475292719074168444365510704342711559699508093042880177904174497791'')
     = Finite (2 ^ 1024 - 2 ^ 971)"
  "parseInt10 (str ''179769313486231580793728971405303415079934132710037826936173778980444968292764750946649017977587207096330286416692887910946555547851940402630657488671505820681908902000708383676273854845817711531764475730270069855571366959622842914819860834936475292719074168444365510704342711559699508093042880177904174497792'')
     = PlusInfinity"
  "parseInt10 (str ''-179769313486231580793728971405303415079934132710037826936173778980444968292764750946649017977587207096330286416692887910946555547851940402630657488671505820681908902000708383676273854845817711531764475730270069855571366959622842914819860834936475292719074168444365510704342711559699508093042880177904174497792'')
     = MinusInfinity"
  by code_simp+

lemma roundToDouble_exact: "\<bar>n\<bar> < 2 ^ 53 \<Longrightarrow> roundToDouble n = n"
  by (simp add: roundToDouble_def)

text \<open>Below 2^53 the drift is that of the integers.\<close>

lemma contractDrift_exact:
  "parseInt10 ts = Finite t \<Longrightarrow> \<bar>now div 1000 - t\<bar> < 2 ^ 53 \<Longrightarrow>
     contractDrift now ts = Some \<bar>now div 1000 - t\<bar>"
  by (simp add: contractDrift_def finiteValue_def roundToDouble_exact)

text \<open>A surrogate pair is one character for the datastore, a lone surrogate is one too.\<close>

lemma charLength_examples:
  "charLength (str ''AXON-'') = 5"
  "charLength [0xD83D, 0xDE00] = 1"
  "charLength [0xDE00, 0xD83D] = 2"
  "charLength [0xD83D, 0xD83D, 0xDE00, 0xDE00] = 3"
  by code_simp+

section \<open>The license validator\<close>



text \<open>
  Claim C7, as stated, fails for a key that is blank: six spaces do not start with the
  prefix \<open>AXON-\<close>, yet the result is \<open>LICENSE_REQUIRED\<close>, because the check for an
  empty trimmed key comes first.
\<close>

theorem validateLicenseKey_blank_key_counterexample:
  "\<not> prefix (orDefault (configService exampleService ''LICENSE_KEY_PREFIX'') (str ''AXON-''))
       (trim (str ''      ''))
   \<and> code (fst (validateLicenseKey exampleService exampleRuntime 1000 (str ''      '') emptyWorld))
       = ''LICENSE_REQUIRED''
   \<and> code (fst (validateLicenseKey exampleService exampleRuntime 1000 (str ''      '') emptyWorld))
       \<noteq> ''LICENSE_INVALID''"
proof -
  have t: "trim (str ''      '') = []"
    by code_simp
  show ?thesis
    by (simp add: validateLicenseKey_def t orDefault_def exampleService_def invalid_def)
qed

text \<open>
  Claim C7, amended. A key whose trimmed form is empty gets \<open>LICENSE_REQUIRED\<close> with
  status code 401, because the check for an empty key comes first. For every key whose
  trimmed form is not empty and does not start with the configured prefix (default
  \<open>AXON-\<close>), the result is \<open>LICENSE_INVALID\<close> with status code 401 and the expected
  prefix in the details. Both hold for every state of the datastore and whether or not a
  datastore is connected; the state is returned as it was, with no statement sent to the
  datastore.
\<close>

theorem validateLicenseKey_wrong_prefix:
  "(trim k = [] \<longrightarrow>
      validateLicenseKey svc rt now k w =
        (invalid 401 ''LICENSE_REQUIRED'' ''License key is required for hosted access'' None, w))
   \<and> (trim k \<noteq> []
        \<and> \<not> prefix (orDefault (configService svc ''LICENSE_KEY_PREFIX'') (str ''AXON-'')) (trim k) \<longrightarrow>
      validateLicenseKey svc rt now k w =
        (invalid 401 ''LICENSE_INVALID'' ''Invalid license key format''
          (Some [(str ''expectedPrefix'',
                  JString (orDefault (configService svc ''LICENSE_KEY_PREFIX'') (str ''AXON-'')))]),
         w))"
  by (auto simp: validateLicenseKey_def Let_def orDefault_def split: option.splits)

text \<open>A key with a wrong prefix, and a key of a no-break space, a tab and a line
  separator, which trimming empties.\<close>

theorem validateLicenseKey_wrong_prefix_witness:
  "validateLicenseKey exampleService exampleRuntime 1000 (str ''BAD-KEY'') revokedWorld =
      (invalid 401 ''LICENSE_INVALID'' ''Invalid license key format''
        (Some [(str ''expectedPrefix'', JString (str ''AXON-''))]), revokedWorld)
   \<and> validateLicenseKey exampleService exampleRuntime 1000 [0x00A0, 0x0009, 0x2028] revokedWorld =
      (invalid 401 ''LICENSE_REQUIRED'' ''License key is required for hosted access'' None,
       revokedWorld)"
proof -
  have h1: "trim (str ''BAD-KEY'') \<noteq> []"
    by code_simp
  have h2: "\<not> prefix (orDefault (configService exampleService ''LICENSE_KEY_PREFIX'') (str ''AXON-''))
              (trim (str ''BAD-KEY''))"
    by code_simp
  have h3: "trim [0x00A0, 0x0009, 0x2028] = []"
    by code_simp
  have p: "orDefault (configService exampleService ''LICENSE_KEY_PREFIX'') (str ''AXON-'')
             = str ''AXON-''"
    by (simp add: orDefault_def exampleService_def)
  show ?thesis
    using validateLicenseKey_wrong_prefix
            [of "str ''BAD-KEY''" exampleService exampleRuntime 1000 revokedWorld]
          validateLicenseKey_wrong_prefix
            [of "[0x00A0, 0x0009, 0x2028]" exampleService exampleRuntime 1000 revokedWorld]
          h1 h2 h3
    by (simp only: p simp_thms)
qed

text \<open>Trimming strips the white space of Unicode: a key between no-break spaces is looked
  up without them.\<close>

lemma validateLicenseKey_no_break_space:
  "code (fst (validateLicenseKey exampleService exampleRuntime 1000
                (0x00A0 # str ''AXON-0001-0002-0003-0004'' @ [0x00A0]) revokedWorld))
     = ''LICENSE_BLOCKED''"
  by code_simp

text \<open>
  Claim C9. \<open>validateLicenseKey\<close> is read-only: for every key and every state, both
  tables and the id counter are the same after the call as before it, and whatever the
  call has sent to the datastore, appended to the effects, consists of select statements
  only.
\<close>

theorem validateLicenseKey_read_only:
  "licenses (snd (validateLicenseKey svc rt now k w)) = licenses w
   \<and> processedEvents (snd (validateLicenseKey svc rt now k w)) = processedEvents w
   \<and> nextId (snd (validateLicenseKey svc rt now k w)) = nextId w
   \<and> take (length (effects w)) (effects (snd (validateLicenseKey svc rt now k w))) = effects w
   \<and> filter (\<lambda>e. \<not> isSelect e)
        (drop (length (effects w)) (effects (snd (validateLicenseKey svc rt now k w)))) = []"
  by (auto simp: validateLicenseKey_def Let_def selectLicenseByKey_def emit_def
      split: prod.splits list.splits)

section \<open>The enforcement gate\<close>

lemma validateLicenseKey_valid_license:
  "valid (fst (validateLicenseKey svc rt now k w))
     \<Longrightarrow> license (fst (validateLicenseKey svc rt now k w)) \<noteq> None"
  by (auto simp: validateLicenseKey_def Let_def invalid_def split: prod.splits list.splits if_splits)

text \<open>
  Claim C8. With enforcement disabled the gate calls \<open>next()\<close> on the request as it is,
  whatever the validator would answer (it is not consulted: the outcome is the same for
  every validator and the state is untouched). Otherwise the key is the trimmed value of
  the \<open>X-License-Key\<close> header: the header itself when it is one string, its first
  value when there are several, and the empty string when the header is absent or an
  empty list. An empty key is denied with 401 \<open>LICENSE_REQUIRED\<close>; a key that the
  validator rejects is denied with exactly the validator's status code, message, code and
  details; a key that the validator accepts lets the request pass with the validator's
  license record, which is present, attached to it.
\<close>

theorem use_enforcement_gate:
  fixes svc :: LicenseService and rt :: runtime and now :: int and w :: world
    and req :: LicensedRequest
  defines "k \<equiv> trim (case xLicenseKey req of
                        None \<Rightarrow> []
                      | Some (HString v) \<Rightarrow> v
                      | Some (HArray []) \<Rightarrow> []
                      | Some (HArray (first # others)) \<Rightarrow> first)"
  defines "r \<equiv> fst (validateLicenseKey svc rt now k w)"
  shows "(\<not> isEnforced svc \<longrightarrow>
            use svc rt now req w = (Next req, w) \<and> useWith False validate req w = (Next req, w))
       \<and> (isEnforced svc \<and> k = [] \<longrightarrow>
            use svc rt now req w =
              (Respond 401
                 (Denial 401 ''License key is required for hosted access'' ''LICENSE_REQUIRED'' None),
               w))
       \<and> (isEnforced svc \<and> k \<noteq> [] \<and> \<not> valid r \<longrightarrow>
            fst (use svc rt now req w) =
              Respond (statusCode r) (Denial (statusCode r) (message r) (code r) (details r)))
       \<and> (isEnforced svc \<and> k \<noteq> [] \<and> valid r \<longrightarrow>
            fst (use svc rt now req w) = Next (req\<lparr>req_license := license r\<rparr>)
            \<and> license r \<noteq> None)"
proof -
  have k: "k = trim (readHeaderValue (xLicenseKey req))"
    unfolding k_def
    by (simp split: option.splits headerValue.splits list.splits)
  show ?thesis
    using validateLicenseKey_valid_license [of svc rt now k w]
    by (auto simp: use_def useWith_def Let_def k r_def split: prod.splits)
qed

text \<open>A header of two values, the first between spaces, for a revoked license; the same
  key as a single string between no-break spaces; and an absent header.\<close>

theorem use_enforcement_gate_witness:
  "fst (use exampleService exampleRuntime 1000
          \<lparr>xLicenseKey = Some (HArray [str '' AXON-0001-0002-0003-0004 '', str ''AXON-OTHER'']),
           req_license = None\<rparr> revokedWorld)
     = Respond 403 (Denial 403 ''License is not active'' ''LICENSE_BLOCKED''
                      (Some [(str ''status'', JString (str ''revoked''))]))
   \<and> fst (use exampleService exampleRuntime 1000
          \<lparr>xLicenseKey = Some (HString (0x00A0 # str ''AXON-0001-0002-0003-0004'' @ [0x00A0])),
           req_license = None\<rparr> revokedWorld)
     = Respond 403 (Denial 403 ''License is not active'' ''LICENSE_BLOCKED''
                      (Some [(str ''status'', JString (str ''revoked''))]))
   \<and> use exampleService exampleRuntime 1000 \<lparr>xLicenseKey = None, req_license = None\<rparr> revokedWorld
     = (Respond 401
          (Denial 401 ''License key is required for hosted access'' ''LICENSE_REQUIRED'' None),
        revokedWorld)"
proof -
  have e: "isEnforced exampleService"
    by (simp add: isEnforced_def exampleService_def)
  have k1: "trim (str '' AXON-0001-0002-0003-0004 '') = str ''AXON-0001-0002-0003-0004''"
    by code_simp
  have k2: "trim (0x00A0 # str ''AXON-0001-0002-0003-0004'' @ [0x00A0])
              = str ''AXON-0001-0002-0003-0004''"
    by code_simp
  have k3: "trim [] = []"
    by (simp add: trim_def)
  have n: "str ''AXON-0001-0002-0003-0004'' \<noteq> []"
    by simp
  have r: "fst (validateLicenseKey exampleService exampleRuntime 1000
                  (str ''AXON-0001-0002-0003-0004'') revokedWorld)
             = invalid 403 ''LICENSE_BLOCKED'' ''License is not active''
                 (Some [(str ''status'', JString (str ''revoked''))])"
    by code_simp
  have v: "\<not> valid (invalid 403 ''LICENSE_BLOCKED'' ''License is not active''
                      (Some [(str ''status'', JString (str ''revoked''))]))"
    by (simp add: invalid_def)
  have a: "fst (use exampleService exampleRuntime 1000
                  \<lparr>xLicenseKey = Some (HArray [str '' AXON-0001-0002-0003-0004 '', str ''AXON-OTHER'']),
                   req_license = None\<rparr> revokedWorld)
             = Respond 403 (Denial 403 ''License is not active'' ''LICENSE_BLOCKED''
                              (Some [(str ''status'', JString (str ''revoked''))]))"
    using use_enforcement_gate [of exampleService exampleRuntime 1000
        "\<lparr>xLicenseKey = Some (HArray [str '' AXON-0001-0002-0003-0004 '', str ''AXON-OTHER'']),
          req_license = None\<rparr>" revokedWorld] e n v
    by (simp add: k1 r invalid_def)
  have b: "fst (use exampleService exampleRuntime 1000
                  \<lparr>xLicenseKey = Some (HString (0x00A0 # str ''AXON-0001-0002-0003-0004'' @ [0x00A0])),
                   req_license = None\<rparr> revokedWorld)
             = Respond 403 (Denial 403 ''License is not active'' ''LICENSE_BLOCKED''
                              (Some [(str ''status'', JString (str ''revoked''))]))"
    using use_enforcement_gate [of exampleService exampleRuntime 1000
        "\<lparr>xLicenseKey = Some (HString (0x00A0 # str ''AXON-0001-0002-0003-0004'' @ [0x00A0])),
          req_license = None\<rparr>" revokedWorld] e n v
    by (simp add: k2 r invalid_def)
  have c: "use exampleService exampleRuntime 1000 \<lparr>xLicenseKey = None, req_license = None\<rparr>
             revokedWorld
           = (Respond 401
                (Denial 401 ''License key is required for hosted access'' ''LICENSE_REQUIRED'' None),
              revokedWorld)"
    using use_enforcement_gate [of exampleService exampleRuntime 1000
        "\<lparr>xLicenseKey = None, req_license = None\<rparr>" revokedWorld] e
    by (simp add: k3)
  show ?thesis
    using a b c by simp
qed

section \<open>Hex encoding and decoding\<close>

lemma unhex_hexDigit_all: "\<forall>n \<in> set [0..<16]. unhex (hexDigit n) = Some n"
  by code_simp

lemma unhex_hexDigit: "n < 16 \<Longrightarrow> unhex (hexDigit n) = Some n"
  using unhex_hexDigit_all by simp

lemma hexDecode_hexEncode: "hexDecode (hexEncode bs) = bs"
proof (induction bs)
  case Nil
  then show ?case by (simp add: hexEncode_def)
next
  case (Cons b bs)
  have hi: "unat b div 16 < 16"
    using unsigned_less [of b, where ?'a = nat] by (simp add: less_mult_imp_div_less)
  have lo: "unat b mod 16 < 16" by simp
  have "(of_nat (16 * (unat b div 16) + unat b mod 16) :: 8 word) = b"
    by simp
  with Cons hi lo show ?case
    by (simp add: hexEncode_def unhex_hexDigit)
qed

lemma length_digestBytes: "length (digestBytes d) = 32"
  by (simp add: digestBytes_def)

lemma hexDecode_length_le: "2 * length (hexDecode s) \<le> length s"
  by (induction s rule: hexDecode.induct) (auto split: option.splits)

lemma hexDecode_nonhex_short:
  "i < length s \<Longrightarrow> unhex (s ! i) = None \<Longrightarrow> 2 * length (hexDecode s) \<le> i"
proof (induction s arbitrary: i rule: hexDecode.induct)
  case (1 a b rest)
  show ?case
  proof (cases "unhex a")
    case None
    then show ?thesis by simp
  next
    case a: (Some x)
    show ?thesis
    proof (cases "unhex b")
      case None
      with a show ?thesis by simp
    next
      case b: (Some y)
      from a b "1.prems" have "i \<noteq> 0" "i \<noteq> Suc 0"
        by (auto simp: nth_Cons' split: if_splits)
      then obtain j where i: "i = Suc (Suc j)"
        by (metis not0_implies_Suc)
      with "1.prems" have "j < length rest" "unhex (rest ! j) = None"
        by auto
      then have "2 * length (hexDecode rest) \<le> j"
        using "1.IH" [OF a b] by blast
      with a b i show ?thesis by simp
    qed
  qed
qed simp_all


section \<open>The header of the signature\<close>

lemma splitOn_nonempty: "splitOn p s \<noteq> []"
  by (induction s) (auto split: list.splits)

lemma splitOn_no_separator: "\<forall>c \<in> set s. \<not> p c \<Longrightarrow> splitOn p s = [s]"
  by (induction s) auto

lemma splitOn_takeWhile:
  "splitOn p s =
     takeWhile (\<lambda>c. \<not> p c) s #
       (case dropWhile (\<lambda>c. \<not> p c) s of [] \<Rightarrow> [] | _ # r \<Rightarrow> splitOn p r)"
proof (induction s)
  case Nil
  show ?case by simp
next
  case (Cons c cs)
  show ?case
  proof (cases "p c")
    case True
    then show ?thesis by simp
  next
    case False
    with Cons show ?thesis
      by (cases "splitOn p cs") (auto simp: splitOn_nonempty)
  qed
qed

lemma joinWith_splitOn: "joinWith [c] (splitOn (\<lambda>x. x = c) s) = s"
proof (induction s)
  case Nil
  show ?case by simp
next
  case (Cons a s)
  obtain x xs where sp: "splitOn (\<lambda>x. x = c) s = x # xs"
    using splitOn_nonempty [of "\<lambda>x. x = c" s] by (cases "splitOn (\<lambda>x. x = c) s") auto
  show ?case
  proof (cases "a = c")
    case True
    with Cons sp show ?thesis by simp
  next
    case False
    with Cons sp show ?thesis by (cases xs) auto
  qed
qed

lemma signaturePairStep_fields:
  "signaturePairStep st part =
     (if isPair part then
        (if pairKey part = str ''ts'' then Some (pairValue part) else fst st,
         if pairKey part = str ''h1'' then Some (pairValue part) else snd st)
      else st)"
proof (cases "chr (CHR ''='') \<in> set part")
  case False
  then have "splitOn (\<lambda>c. c = chr (CHR ''='')) part = [part]"
    by (intro splitOn_no_separator) auto
  with False show ?thesis
    by (simp add: signaturePairStep_def isPair_def)
next
  case True
  then have ne: "dropWhile (\<lambda>c. c \<noteq> chr (CHR ''='')) part \<noteq> []"
    by auto
  then obtain a r where ar: "dropWhile (\<lambda>c. c \<noteq> chr (CHR ''='')) part = a # r"
    by (cases "dropWhile (\<lambda>c. c \<noteq> chr (CHR ''='')) part") auto
  have "a = chr (CHR ''='')"
    using hd_dropWhile [OF ne] ar by simp
  with ar have d: "dropWhile (\<lambda>c. c \<noteq> chr (CHR ''='')) part = chr (CHR ''='') # r"
    by simp
  have sp: "splitOn (\<lambda>c. c = chr (CHR ''='')) part = pairKey part # splitOn (\<lambda>c. c = chr (CHR ''='')) r"
    using splitOn_takeWhile [of "\<lambda>c. c = chr (CHR ''='')" part] d by (simp add: pairKey_def)
  have whole: "pairKey part @ chr (CHR ''='') # r = part"
    using d takeWhile_dropWhile_id [of "\<lambda>c. c \<noteq> chr (CHR ''='')" part] by (simp add: pairKey_def)
  have "drop (length (pairKey part) + 1) (pairKey part @ chr (CHR ''='') # r) = r"
    by simp
  then have "drop (length (pairKey part) + 1) part = r"
    by (simp only: whole)
  then have v: "trim (joinWith (str ''='') (splitOn (\<lambda>c. c = chr (CHR ''='')) r)) = pairValue part"
    by (simp add: pairValue_def joinWith_splitOn str_Cons)
  obtain x xs where rest: "splitOn (\<lambda>c. c = chr (CHR ''='')) r = x # xs"
    using splitOn_nonempty [of "\<lambda>c. c = chr (CHR ''='')" r]
    by (cases "splitOn (\<lambda>c. c = chr (CHR ''='')) r") auto
  show ?thesis
  proof (cases "pairKey part = []")
    case True
    with sp show ?thesis
      by (simp add: signaturePairStep_def isPair_def)
  next
    case False
    with \<open>chr (CHR ''='') \<in> set part\<close> have "isPair part"
      by (simp add: isPair_def)
    with False sp v rest show ?thesis
      by (simp add: signaturePairStep_def Let_def)
  qed
qed

lemma fieldIn_snoc:
  "fieldIn name (parts @ [part]) =
     (if isPair part \<and> pairKey part = name then Some (pairValue part) else fieldIn name parts)"
  by (simp add: fieldIn_def Let_def)

lemma foldl_signaturePairStep:
  "foldl signaturePairStep st parts =
     (case fieldIn (str ''ts'') parts of None \<Rightarrow> fst st | Some v \<Rightarrow> Some v,
      case fieldIn (str ''h1'') parts of None \<Rightarrow> snd st | Some v \<Rightarrow> Some v)"
proof (induction parts rule: rev_induct)
  case Nil
  show ?case by (simp add: fieldIn_def)
next
  case (snoc part parts)
  define st' where "st' = foldl signaturePairStep st parts"
  have st': "st' = (case fieldIn (str ''ts'') parts of None \<Rightarrow> fst st | Some v \<Rightarrow> Some v,
                    case fieldIn (str ''h1'') parts of None \<Rightarrow> snd st | Some v \<Rightarrow> Some v)"
    unfolding st'_def by (rule snoc)
  have "foldl signaturePairStep st (parts @ [part]) = signaturePairStep st' part"
    by (simp add: st'_def)
  also have "\<dots> = (if isPair part then
        (if pairKey part = str ''ts'' then Some (pairValue part) else fst st',
         if pairKey part = str ''h1'' then Some (pairValue part) else snd st')
      else st')"
    by (rule signaturePairStep_fields)
  also have "\<dots> = (case fieldIn (str ''ts'') (parts @ [part]) of None \<Rightarrow> fst st | Some v \<Rightarrow> Some v,
      case fieldIn (str ''h1'') (parts @ [part]) of None \<Rightarrow> snd st | Some v \<Rightarrow> Some v)"
    by (simp add: st' fieldIn_snoc)
  finally show ?case .
qed

lemma parsePaddleSignatureHeader_contract:
  "parsePaddleSignatureHeader hdr = signatureHeaderContract hdr"
proof (cases hdr)
  case None
  then show ?thesis
    by (simp add: parsePaddleSignatureHeader_def signatureHeaderContract_def signatureMissing_def)
next
  case (Some h)
  have parts: "filter (\<lambda>part. length part > 0)
                 (map trim (splitOn (\<lambda>c. c = chr (CHR '';'') \<or> c = chr (CHR '','')) h)) = headerParts h"
    by (simp add: headerParts_def)
  have fold: "foldl signaturePairStep (None, None) (headerParts h)
                = (headerField (str ''ts'') h, headerField (str ''h1'') h)"
    by (simp add: foldl_signaturePairStep headerField_def split: option.splits)
  show ?thesis
    unfolding Some parsePaddleSignatureHeader_def signatureHeaderContract_def Let_def
    by (simp only: option.case parts fold)
       (simp add: signatureMissing_def signatureMalformed_def split: option.splits)
qed

section \<open>The signature verifier\<close>

lemma digestBytes_nonempty: "digestBytes d \<noteq> []"
  using length_digestBytes [of d] by auto

lemma compare_stage:
  "(let receivedBuffer = r; expectedBuffer = hexDecode (hexEncode (digestBytes d)) in
      if length receivedBuffer = 0 \<or> length receivedBuffer \<noteq> length expectedBuffer then
        Inl signatureInvalid
      else
        (case timingSafeEqual receivedBuffer expectedBuffer of
           Inl e \<Rightarrow> Inl e
         | Inr isValid \<Rightarrow> if \<not> isValid then Inl signatureInvalid else Inr ()))
   = (if r \<noteq> digestBytes d then Inl signatureInvalid else Inr ())"
  using digestBytes_nonempty [of d]
  by (auto simp: Let_def hexDecode_hexEncode timingSafeEqual_def)

lemma expiry_stage:
  "(case parseInt10 (orDefault (configService svc ''PADDLE_WEBHOOK_TOLERANCE_SEC'') (str ''300'')) of
      Finite tol \<Rightarrow>
        (case parseInt10 ts of
           Finite t \<Rightarrow>
             if tol > 0 then
               (let drift = \<bar>roundToDouble (now div 1000 - t)\<bar>
                in if drift > tol then Some (drift, tol) else None)
             else None
         | _ \<Rightarrow> None)
    | _ \<Rightarrow> None)
   = contractExpired svc now ts"
  by (simp add: contractExpired_def contractTolerance_def contractDrift_def finiteValue_def
      Let_def split: number.splits)

lemma verifyPaddleSignature_stages:
  "verifyPaddleSignature svc rt now rawBody hdr =
     (case configService svc ''PADDLE_WEBHOOK_SECRET'' of
        None \<Rightarrow> Inl notConfigured
      | Some secret \<Rightarrow>
          if secret = [] then Inl notConfigured
          else
            (case parsePaddleSignatureHeader hdr of
               Inl e \<Rightarrow> Inl e
             | Inr p \<Rightarrow>
                 (case contractExpired svc now (timestamp p) of
                    Some dt \<Rightarrow> Inl (signatureExpired dt)
                  | None \<Rightarrow>
                      if hexDecode (signature p)
                           \<noteq> digestBytes (hmacSha256 rt secret (timestamp p @ str '':'' @ rawBody))
                      then Inl signatureInvalid
                      else Inr ())))"
  unfolding verifyPaddleSignature_def
  apply (simp only: Let_def expiry_stage [unfolded Let_def] compare_stage [unfolded Let_def])
  apply (simp add: notConfigured_def signatureExpired_def split: option.splits sum.splits prod.splits)
  done


lemma parsePaddleSignatureHeader_error:
  "parsePaddleSignatureHeader hdr \<noteq> Inl TimingSafeEqualLengthError"
  by (auto simp: parsePaddleSignatureHeader_def Let_def
      split: option.splits prod.splits if_splits)

text \<open>
  Claim C4, as stated, fails on the order of the last two failures. With the secret
  configured, the header \<open>ts=1;h1=00\<close> and the clock at second 1000000, the signature is
  both mismatched (\<open>h1\<close> decodes to one byte) and stale (the drift is 999999 seconds
  against the default tolerance of 300). The contract as stated raises
  \<open>PADDLE_SIGNATURE_INVALID\<close>; the code raises \<open>PADDLE_SIGNATURE_EXPIRED\<close>, since it
  compares the timestamps before it computes the HMAC.
\<close>

theorem verifyPaddleSignature_order_counterexample:
  "verifyPaddleSignature exampleService exampleRuntime 1000000000 bodyCreated (Some (str ''ts=1;h1=00''))
     = Inl (signatureExpired (999999, 300))
   \<and> signatureContractAsStated exampleService exampleRuntime 1000000000 bodyCreated
        (Some (str ''ts=1;h1=00''))
     = Inl signatureInvalid"
  by code_simp

text \<open>
  Claim C4, amended. For every raw body, header, secret, tolerance and clock, the verifier
  raises exactly the first applicable failure in this order: \<open>PADDLE_NOT_CONFIGURED\<close>
  (503) when no secret is configured; \<open>PADDLE_SIGNATURE_MISSING\<close> (401) when the header
  is absent or empty; \<open>PADDLE_SIGNATURE_INVALID\<close> (401) when the header lacks a
  \<open>ts=\<close> or \<open>h1=\<close> pair with a value; \<open>PADDLE_SIGNATURE_EXPIRED\<close> (401) when the tolerance
  (default 300 seconds) parses to a finite number greater than 0, the timestamp parses to
  a finite number and \<open>|now - ts|\<close>, in the arithmetic of doubles, exceeds the
  tolerance; \<open>PADDLE_SIGNATURE_INVALID\<close> (401) when the hex-decoded \<open>h1\<close>
  differs in length or content from the HMAC-SHA256 of \<open><ts>:<rawBody>\<close>; and it
  succeeds otherwise. The verifier takes and returns no state, and a webhook that it
  rejects leaves the state as it was.
\<close>

theorem verifyPaddleSignature_contract:
  "verifyPaddleSignature svc rt now rawBody hdr
     = signatureContractInCodeOrder svc rt now rawBody hdr
   \<and> (verifyPaddleSignature svc rt now rawBody hdr = Inl e
        \<longrightarrow> processPaddleWebhook svc rt now rawBody hdr w = (Inl e, w))"
  by (simp add: verifyPaddleSignature_stages signatureContractInCodeOrder_def contractMismatch_def
      parsePaddleSignatureHeader_contract processPaddleWebhook_def orDefault_def Let_def
      split: option.splits sum.splits)

text \<open>A signature that verifies; the same signature when it is stale; a timestamp of 310
  digits, which is not finite, so that its age is not checked; and the timestamp
  2^53 + 1, whose drift is that of the double 2^53.\<close>

theorem verifyPaddleSignature_contract_witness:
  "verifyPaddleSignature exampleService exampleRuntime 1000 bodyCreated (Some validSignatureHeader)
     = Inr ()
   \<and> processPaddleWebhook exampleService exampleRuntime 1000000000 bodyCreated
        (Some validSignatureHeader) revokedWorld
     = (Inl (signatureExpired (999999, 300)), revokedWorld)
   \<and> verifyPaddleSignature exampleService exampleRuntime 1000 bodyCreated
        (Some hugeTimestampHeader)
     = Inr ()
   \<and> verifyPaddleSignature exampleService exampleRuntime 0 bodyCreated
        (Some roundedTimestampHeader)
     = Inl (signatureExpired (9007199254740992, 300))"
proof -
  have huge: "signatureContractInCodeOrder exampleService exampleRuntime 1000 bodyCreated
                (Some hugeTimestampHeader) = Inr ()"
    by code_simp
  have rounded: "signatureContractInCodeOrder exampleService exampleRuntime 0 bodyCreated
                   (Some roundedTimestampHeader) = Inl (signatureExpired (9007199254740992, 300))"
    by code_simp
  have ok: "signatureContractInCodeOrder exampleService exampleRuntime 1000 bodyCreated
              (Some validSignatureHeader) = Inr ()"
    by code_simp
  have stale: "signatureContractInCodeOrder exampleService exampleRuntime 1000000000 bodyCreated
                 (Some validSignatureHeader) = Inl (signatureExpired (999999, 300))"
    by code_simp
  show ?thesis
    using verifyPaddleSignature_contract
            [of exampleService exampleRuntime 1000 bodyCreated "Some validSignatureHeader"]
          verifyPaddleSignature_contract
            [of exampleService exampleRuntime 1000000000 bodyCreated "Some validSignatureHeader"
                "signatureExpired (999999, 300)" revokedWorld]
          verifyPaddleSignature_contract
            [of exampleService exampleRuntime 1000 bodyCreated "Some hugeTimestampHeader"]
          verifyPaddleSignature_contract
            [of exampleService exampleRuntime 0 bodyCreated "Some roundedTimestampHeader"]
    unfolding ok stale huge rounded
    by simp
qed

text \<open>
  Claim C10. In \<open>verifyPaddleSignature\<close> the length-mismatch exception of
  \<open>timingSafeEqual\<close> is never raised, for any input: the expected buffer is the 32-byte
  HMAC, and once the secret is configured, the header parsed and the timestamp not stale,
  a received \<open>h1\<close> whose hex decoding is empty or not 32 bytes long is rejected with
  \<open>PADDLE_SIGNATURE_INVALID\<close> by the guard before the comparison. That covers an
  \<open>h1\<close> that is truncated (fewer than 64 characters) or has a character that is not a
  hex digit among its first 64: it decodes to fewer than 32 bytes.
\<close>

theorem verifyPaddleSignature_timingSafeEqual_lengths:
  "verifyPaddleSignature svc rt now rawBody hdr \<noteq> Inl TimingSafeEqualLengthError
   \<and> length (hexDecode (hexEncode (digestBytes (hmacSha256 rt secret payloadToSign)))) = 32
   \<and> (configService svc ''PADDLE_WEBHOOK_SECRET'' = Some secret \<and> secret \<noteq> []
        \<and> parsePaddleSignatureHeader hdr = Inr p
        \<and> contractExpired svc now (timestamp p) = None
        \<and> (hexDecode (signature p) = [] \<or> length (hexDecode (signature p)) \<noteq> 32)
       \<longrightarrow> verifyPaddleSignature svc rt now rawBody hdr = Inl signatureInvalid)
   \<and> (length h1 < 64 \<or> (i < 64 \<and> i < length h1 \<and> unhex (h1 ! i) = None)
       \<longrightarrow> length (hexDecode h1) < 32)"
proof -
  have a: "verifyPaddleSignature svc rt now rawBody hdr \<noteq> Inl TimingSafeEqualLengthError"
    using parsePaddleSignatureHeader_error [of hdr]
    by (auto simp: verifyPaddleSignature_stages notConfigured_def signatureExpired_def
        signatureInvalid_def split: option.splits sum.splits)
  have b: "length (hexDecode (hexEncode (digestBytes (hmacSha256 rt secret payloadToSign)))) = 32"
    by (simp add: hexDecode_hexEncode length_digestBytes)
  have c: "verifyPaddleSignature svc rt now rawBody hdr = Inl signatureInvalid"
    if "configService svc ''PADDLE_WEBHOOK_SECRET'' = Some secret" "secret \<noteq> []"
      "parsePaddleSignatureHeader hdr = Inr p" "contractExpired svc now (timestamp p) = None"
      "hexDecode (signature p) = [] \<or> length (hexDecode (signature p)) \<noteq> 32"
    using that length_digestBytes [of "hmacSha256 rt secret (timestamp p @ str '':'' @ rawBody)"]
    by (auto simp: verifyPaddleSignature_stages)
  have d: "length (hexDecode h1) < 32"
    if "length h1 < 64 \<or> (i < 64 \<and> i < length h1 \<and> unhex (h1 ! i) = None)"
    using that hexDecode_length_le [of h1] hexDecode_nonhex_short [of i h1]
    by auto
  from a b c d show ?thesis by blast
qed

theorem verifyPaddleSignature_timingSafeEqual_lengths_witness:
  "verifyPaddleSignature exampleService exampleRuntime 1000 bodyCreated (Some (str ''ts=1;h1=zz''))
     = Inl signatureInvalid"
proof -
  have h1: "configService exampleService ''PADDLE_WEBHOOK_SECRET'' = Some (str ''whsec'')"
    by (simp add: exampleService_def)
  have h2: "(str ''whsec'') \<noteq> []"
    by simp
  have h3: "parsePaddleSignatureHeader (Some (str ''ts=1;h1=zz'')) = Inr nonHexSignature"
    by code_simp
  have h4: "contractExpired exampleService 1000 (timestamp nonHexSignature) = None"
    by code_simp
  have h5: "hexDecode (signature nonHexSignature) = []"
    by code_simp
  show ?thesis
    using verifyPaddleSignature_timingSafeEqual_lengths
            [of exampleService exampleRuntime 1000 bodyCreated "Some (str ''ts=1;h1=zz'')"
                "(str ''whsec'')" _ nonHexSignature]
          h1 h2 h3 h4 h5
    by blast
qed

section \<open>The examples verify and parse\<close>

lemma example_verified:
  "verifyPaddleSignature exampleService exampleRuntime 1000 bodyCreated (Some validSignatureHeader) = Inr ()"
  "verifyPaddleSignature exampleService exampleRuntime 1000 bodyNoSubscription (Some validSignatureHeader) = Inr ()"
  by code_simp+

lemma example_parsed:
  "parsePaddlePayload exampleRuntime bodyCreated = Inr createdPayload"
  "parsePaddlePayload exampleRuntime bodyNoSubscription = Inr noSubscriptionPayload"
  by code_simp+

lemma example_hasDb: "hasDb exampleService"
  by (simp add: exampleService_def)

section \<open>What the lifecycle operations leave alone\<close>

lemma buildLicenseKey_frame:
  "buildLicenseKey rt pfx w = (k, w') \<Longrightarrow>
     processedEvents w' = processedEvents w \<and> licenses w' = licenses w \<and> effects w' = effects w
     \<and> nextId w' = nextId w"
  by (auto simp: buildLicenseKey_def Let_def)

lemma insertLicense_frame:
  "insertLicense rt v now w = (r, w') \<Longrightarrow>
     processedEvents w' = processedEvents w
     \<and> lifecycleApplications w' = lifecycleApplications w"
  by (auto simp: insertLicense_def emit_def lifecycleApplications_def split: if_splits)

lemma insertGeneratedKey_frame:
  "insertGeneratedKey rt now pfx v m a w = (r, w') \<Longrightarrow>
     processedEvents w' = processedEvents w
     \<and> lifecycleApplications w' = lifecycleApplications w"
proof (induction rt now pfx v m a w arbitrary: r w' rule: insertGeneratedKey.induct)
  case (1 rt now keyPrefix v maxAttempts attempt w)
  show ?case
  proof (cases "attempt < maxAttempts")
    case False
    with "1.prems" show ?thesis by (simp add: insertGeneratedKey.simps [of _ _ _ _ maxAttempts attempt])
  next
    case True
    obtain k w1 where b: "buildLicenseKey rt keyPrefix w = (k, w1)" by (cases "buildLicenseKey rt keyPrefix w")
    obtain ins w2 where i: "insertLicense rt (v\<lparr>key := k\<rparr>) now w1 = (ins, w2)"
      by (cases "insertLicense rt (v\<lparr>key := k\<rparr>) now w1")
    have f1: "processedEvents w1 = processedEvents w" "lifecycleApplications w1 = lifecycleApplications w"
      using buildLicenseKey_frame [OF b] by (auto simp: lifecycleApplications_def)
    have f2: "processedEvents w2 = processedEvents w1" "lifecycleApplications w2 = lifecycleApplications w1"
      using insertLicense_frame [OF i] by auto
    show ?thesis
    proof (cases ins)
      case (Inl e)
      with True b i "1.prems" f1 f2 show ?thesis
        by (simp add: insertGeneratedKey.simps [of _ _ _ _ maxAttempts attempt])
    next
      case (Inr ids)
      show ?thesis
      proof (cases "length ids > 0")
        case True
        with \<open>attempt < maxAttempts\<close> Inr b i "1.prems" f1 f2 show ?thesis
          by (simp add: insertGeneratedKey.simps [of _ _ _ _ maxAttempts attempt])
      next
        case False
        with \<open>attempt < maxAttempts\<close> Inr b i "1.prems"
        have "insertGeneratedKey rt now keyPrefix v maxAttempts (attempt + 1) w2 = (r, w')"
          by (simp add: insertGeneratedKey.simps [of _ _ _ _ maxAttempts attempt])
        from "1.IH" [OF \<open>attempt < maxAttempts\<close> b [symmetric] refl i [symmetric] refl Inr False this]
        show ?thesis using f1 f2 by simp
      qed
    qed
  qed
qed

lemma upsertActiveLicense_frame:
  assumes u: "upsertActiveLicense svc rt now d w = (r, w')"
  shows "processedEvents w' = processedEvents w
     \<and> lifecycleApplications w' = lifecycleApplications w"
proof (cases "hasDb svc")
  case False
  with u show ?thesis by (simp add: upsertActiveLicense_def)
next
  case True
  show ?thesis
  proof (cases "extractSubscriptionId d")
    case None
    with u True show ?thesis by (simp add: upsertActiveLicense_def)
  next
    case (Some sid)
    define w1 where "w1 = emit (DbSelectLicenseBySubscription sid) w"
    have sel: "selectLicenseBySubscription sid w
                 = (take 1 (filter (\<lambda>l. paddleSubscriptionId l = Some sid) (licenses w)), w1)"
      by (simp add: selectLicenseBySubscription_def w1_def)
    have f1: "processedEvents w1 = processedEvents w"
      "lifecycleApplications w1 = lifecycleApplications w"
      by (simp_all add: w1_def emit_def lifecycleApplications_def)
    show ?thesis
    proof (cases "take 1 (filter (\<lambda>l. paddleSubscriptionId l = Some sid) (licenses w))")
      case Nil
      with u True Some sel obtain v where
        "insertGeneratedKey rt now (orDefault (configService svc ''LICENSE_KEY_PREFIX'') (str ''AXON-''))
           v 5 0 w1 = (r, w')"
        by (auto simp: upsertActiveLicense_def Let_def)
      from insertGeneratedKey_frame [OF this] f1 show ?thesis by simp
    next
      case (Cons existingLicense rest)
      with u True Some sel obtain f where "w' = updateLicenseById (id' existingLicense) f w1"
        by (auto simp: upsertActiveLicense_def Let_def)
      with f1 show ?thesis
        by (simp add: updateLicenseById_def emit_def lifecycleApplications_def)
    qed
  qed
qed

lemma deactivateLicense_frame:
  "deactivateLicense svc now d ety w = (r, w') \<Longrightarrow>
     processedEvents w' = processedEvents w
     \<and> lifecycleApplications w' = lifecycleApplications w"
  by (auto simp: deactivateLicense_def Let_def updateLicenseBySubscription_def emit_def
      lifecycleApplications_def split: if_splits option.splits)

lemma applyPaddleLifecycle_frame:
  "applyPaddleLifecycle svc rt now p w = (r, w') \<Longrightarrow>
     processedEvents w' = processedEvents w
     \<and> lifecycleApplications w' = Suc (lifecycleApplications w)"
proof -
  assume a: "applyPaddleLifecycle svc rt now p w = (r, w')"
  have e: "processedEvents (emit (ApplyLifecycle (eventType p)) w) = processedEvents w"
      "lifecycleApplications (emit (ApplyLifecycle (eventType p)) w) = Suc (lifecycleApplications w)"
    by (simp_all add: emit_def lifecycleApplications_def)
  show ?thesis
    using a e
    by (auto simp: applyPaddleLifecycle_def Let_def
        split: if_splits prod.splits sum.splits
        dest!: upsertActiveLicense_frame deactivateLicense_frame)
qed

section \<open>Key generation\<close>

lemma upper_hexDigit_all:
  "\<forall>n \<in> set [0..<16]. toUpperCase [hexDigit n] = [str ''0123456789ABCDEF'' ! n]"
  by code_simp

lemma upper_hexDigit: "n < 16 \<Longrightarrow> toUpperCase [hexDigit n] = [str ''0123456789ABCDEF'' ! n]"
  using upper_hexDigit_all by simp

lemma toUpperCase_Cons: "toUpperCase (c # cs) = toUpperCase [c] @ toUpperCase cs"
  by (simp add: toUpperCase_def)

lemma byte_nibbles: "unat (b :: 8 word) div 16 < 16" "unat b mod 16 < 16"
  using unsigned_less [of b, where ?'a = nat] by (simp_all add: less_mult_imp_div_less)

lemma segment_hexGroup: "segment rt n = hexGroup (randomBytes2 rt n)"
  using byte_nibbles [of "fst (randomBytes2 rt n)"] byte_nibbles [of "snd (randomBytes2 rt n)"]
  by (simp add: segment_def hexEncode_def hexGroup_def
      toUpperCase_Cons [of _ "_ # _"] upper_hexDigit)

lemma buildLicenseKey_keyFrom:
  "buildLicenseKey rt pfx w
     = (keyFrom rt pfx (randomCalls w), w\<lparr>randomCalls := randomCalls w + 4\<rparr>)"
  by (simp add: buildLicenseKey_def keyFrom_def segment_hexGroup Let_def)

lemma keyFrom_prefix: "prefix pfx (keyFrom rt pfx n)"
  by (simp add: keyFrom_def)

lemma hexGroup_characters:
  "\<forall>n \<in> set [0..<16]. \<not> isHighSurrogate (str ''0123456789ABCDEF'' ! n)
                         \<and> \<not> isLowSurrogate (str ''0123456789ABCDEF'' ! n)"
  by code_simp

lemma hexGroup_plain:
  "length (hexGroup b) = 4" "c \<in> set (hexGroup b) \<Longrightarrow> \<not> isHighSurrogate c"
  "\<not> isLowSurrogate (hd (hexGroup b))"
  using byte_nibbles [of "fst b"] byte_nibbles [of "snd b"] hexGroup_characters
  by (auto simp: hexGroup_def)

lemma charLength_plain: "\<forall>c \<in> set s. \<not> isHighSurrogate c \<Longrightarrow> charLength s = length s"
  by (induction s rule: charLength.induct) simp_all

lemma charLength_append:
  "bs = [] \<or> \<not> isLowSurrogate (hd bs) \<Longrightarrow> charLength (as @ bs) = charLength as + charLength bs"
proof (induction as rule: charLength.induct)
  case (1 c d cs)
  then show ?case by simp
next
  case (2 c)
  then show ?case by (cases bs) auto
next
  case 3
  then show ?case by simp
qed

lemma dash_plain: "\<not> isHighSurrogate (chr (CHR ''-''))" "\<not> isLowSurrogate (chr (CHR ''-''))"
  by code_simp+

lemma charLength_keyFrom:
  "charLength (keyFrom rt pfx n)
     = charLength (if suffix (str ''-'') pfx then pfx else pfx @ str ''-'') + 19"
proof -
  define t where "t = hexGroup (randomBytes2 rt n) @ str ''-'' @ hexGroup (randomBytes2 rt (n + 1))
                        @ str ''-'' @ hexGroup (randomBytes2 rt (n + 2)) @ str ''-''
                        @ hexGroup (randomBytes2 rt (n + 3))"
  have k: "keyFrom rt pfx n = (if suffix (str ''-'') pfx then pfx else pfx @ str ''-'') @ t"
    by (simp add: keyFrom_def t_def)
  have "\<forall>c \<in> set t. \<not> isHighSurrogate c"
    by (auto simp: t_def dash_plain str_Cons dest: hexGroup_plain(2))
  then have "charLength t = length t"
    by (rule charLength_plain)
  then have l: "charLength t = 19"
    by (simp add: t_def hexGroup_plain(1))
  have "t \<noteq> []"
    using hexGroup_plain(1) [of "randomBytes2 rt n"] by (auto simp: t_def)
  moreover have "hd t = hd (hexGroup (randomBytes2 rt n))"
    using hexGroup_plain(1) [of "randomBytes2 rt n"] by (cases "hexGroup (randomBytes2 rt n)") (auto simp: t_def)
  ultimately have "\<not> isLowSurrogate (hd t)"
    using hexGroup_plain(3) by simp
  then show ?thesis
    unfolding k by (subst charLength_append) (simp_all add: l)
qed

lemma insertLicense_refused:
  "licenseRefused rt v \<Longrightarrow>
     insertLicense rt v now w = (Inl ValueRefused, emit (DbInsertLicense (key v)) w)"
  by (simp add: insertLicense_def)

lemma insertLicense_conflict:
  "\<not> licenseRefused rt v \<Longrightarrow> key v \<in> licenseKeys w \<Longrightarrow>
     insertLicense rt v now w = (Inr [], emit (DbInsertLicense (key v)) w)"
  by (simp add: insertLicense_def licenseKeys_def)

lemma insertLicense_fresh:
  "\<not> licenseRefused rt v \<Longrightarrow> key v \<notin> licenseKeys w \<Longrightarrow>
   paddleSubscriptionId v \<notin> set (map paddleSubscriptionId (licenses w)) \<Longrightarrow>
     insertLicense rt v now w =
       (Inr [nextId w],
        emit (DbInsertLicense (key v))
          (w\<lparr>licenses := licenses w @ [InsertLicense.extend v (license.fields (nextId w) now now)],
             nextId := nextId w + 1\<rparr>))"
  by (simp add: insertLicense_def licenseKeys_def)

text \<open>An attempt whose key is taken sends its insert and leaves the loop to the next
  attempt, with four more random calls made.\<close>

lemma insertGeneratedKey_collision:
  assumes "a < m"
    and "keyFrom rt pfx (randomCalls w) \<in> licenseKeys w"
    and "\<not> licenseRefused rt (v\<lparr>key := keyFrom rt pfx (randomCalls w)\<rparr>)"
  shows "insertGeneratedKey rt now pfx v m a w =
           insertGeneratedKey rt now pfx v m (a + 1)
             (emit (DbInsertLicense (keyFrom rt pfx (randomCalls w)))
                (w\<lparr>randomCalls := randomCalls w + 4\<rparr>))"
proof -
  have "insertLicense rt (v\<lparr>key := keyFrom rt pfx (randomCalls w)\<rparr>) now
          (w\<lparr>randomCalls := randomCalls w + 4\<rparr>)
        = (Inr [], emit (DbInsertLicense (keyFrom rt pfx (randomCalls w)))
                     (w\<lparr>randomCalls := randomCalls w + 4\<rparr>))"
    using insertLicense_conflict
            [of rt "v\<lparr>key := keyFrom rt pfx (randomCalls w)\<rparr>" "w\<lparr>randomCalls := randomCalls w + 4\<rparr>" now]
          assms(2,3)
    by (simp add: licenseKeys_def)
  with assms(1) show ?thesis
    by (simp add: insertGeneratedKey.simps [of _ _ _ _ m a] buildLicenseKey_keyFrom)
qed

lemma collision_state:
  fixes w :: world and k :: jsstring
  defines "w2 \<equiv> emit (DbInsertLicense k) (w\<lparr>randomCalls := randomCalls w + 4\<rparr>)"
  shows "licenses w2 = licenses w" "nextId w2 = nextId w" "randomCalls w2 = randomCalls w + 4"
    "insertAttempts w2 = insertAttempts w + 1" "licenseKeys w2 = licenseKeys w"
  by (simp_all add: w2_def emit_def insertAttempts_def licenseKeys_def)

lemma insertGeneratedKey_all_collide:
  "\<forall>i<k. keyFrom rt pfx (randomCalls w + 4 * i) \<in> licenseKeys w
          \<and> \<not> licenseRefused rt (v\<lparr>key := keyFrom rt pfx (randomCalls w + 4 * i)\<rparr>) \<Longrightarrow>
   a + k = m \<Longrightarrow>
     fst (insertGeneratedKey rt now pfx v m a w) = Inl keyGenerationFailed
     \<and> licenses (snd (insertGeneratedKey rt now pfx v m a w)) = licenses w
     \<and> nextId (snd (insertGeneratedKey rt now pfx v m a w)) = nextId w
     \<and> insertAttempts (snd (insertGeneratedKey rt now pfx v m a w)) = insertAttempts w + k"
proof (induction k arbitrary: a w)
  case 0
  then show ?case
    by (simp add: insertGeneratedKey.simps [of _ _ _ _ m m] keyGenerationFailed_def)
next
  case (Suc k)
  define w2 where "w2 = emit (DbInsertLicense (keyFrom rt pfx (randomCalls w)))
                          (w\<lparr>randomCalls := randomCalls w + 4\<rparr>)"
  from Suc.prems have lt: "a < m" by simp
  have k0: "keyFrom rt pfx (randomCalls w) \<in> licenseKeys w"
    "\<not> licenseRefused rt (v\<lparr>key := keyFrom rt pfx (randomCalls w)\<rparr>)"
    using Suc.prems(1) [rule_format, of 0] by simp_all
  have step: "insertGeneratedKey rt now pfx v m a w = insertGeneratedKey rt now pfx v m (a + 1) w2"
    unfolding w2_def by (rule insertGeneratedKey_collision [OF lt k0])
  note w2 = collision_state [of "keyFrom rt pfx (randomCalls w)" w, folded w2_def]
  have "\<forall>i<k. keyFrom rt pfx (randomCalls w2 + 4 * i) \<in> licenseKeys w2
          \<and> \<not> licenseRefused rt (v\<lparr>key := keyFrom rt pfx (randomCalls w2 + 4 * i)\<rparr>)"
  proof (intro allI impI)
    fix i assume "i < k"
    then show "keyFrom rt pfx (randomCalls w2 + 4 * i) \<in> licenseKeys w2
          \<and> \<not> licenseRefused rt (v\<lparr>key := keyFrom rt pfx (randomCalls w2 + 4 * i)\<rparr>)"
      using Suc.prems(1) [rule_format, of "Suc i"] by (simp add: w2 add.assoc)
  qed
  moreover have "(a + 1) + k = m" using Suc.prems by simp
  ultimately show ?case
    using Suc.IH [of w2 "a + 1"] w2 by (simp add: step)
qed

lemma insertGeneratedKey_first_free:
  "\<forall>i<j. keyFrom rt pfx (randomCalls w + 4 * i) \<in> licenseKeys w
          \<and> \<not> licenseRefused rt (v\<lparr>key := keyFrom rt pfx (randomCalls w + 4 * i)\<rparr>) \<Longrightarrow>
   keyFrom rt pfx (randomCalls w + 4 * j) \<notin> licenseKeys w \<Longrightarrow>
   \<not> licenseRefused rt (v\<lparr>key := keyFrom rt pfx (randomCalls w + 4 * j)\<rparr>) \<Longrightarrow>
   a + j < m \<Longrightarrow>
   paddleSubscriptionId v \<notin> set (map paddleSubscriptionId (licenses w)) \<Longrightarrow>
     fst (insertGeneratedKey rt now pfx v m a w) = Inr ()
     \<and> licenses (snd (insertGeneratedKey rt now pfx v m a w)) =
         licenses w @ [InsertLicense.extend (v\<lparr>key := keyFrom rt pfx (randomCalls w + 4 * j)\<rparr>)
                         (license.fields (nextId w) now now)]
     \<and> insertAttempts (snd (insertGeneratedKey rt now pfx v m a w)) = insertAttempts w + j + 1"
proof (induction j arbitrary: a w)
  case 0
  define w1 where "w1 = w\<lparr>randomCalls := randomCalls w + 4\<rparr>"
  from 0 have lt: "a < m" by simp
  from 0 have ins: "insertLicense rt (v\<lparr>key := keyFrom rt pfx (randomCalls w)\<rparr>) now w1 =
       (Inr [nextId w1],
        emit (DbInsertLicense (keyFrom rt pfx (randomCalls w)))
          (w1\<lparr>licenses := licenses w1 @
                 [InsertLicense.extend (v\<lparr>key := keyFrom rt pfx (randomCalls w)\<rparr>)
                    (license.fields (nextId w1) now now)],
             nextId := nextId w1 + 1\<rparr>))"
    using insertLicense_fresh [of rt "v\<lparr>key := keyFrom rt pfx (randomCalls w)\<rparr>" w1 now]
    by (simp add: w1_def licenseKeys_def)
  show ?case
    using lt
    by (simp add: insertGeneratedKey.simps [of _ _ _ _ m a] buildLicenseKey_keyFrom
        w1_def [symmetric] ins)
       (simp add: w1_def emit_def insertAttempts_def)
next
  case (Suc j)
  define w2 where "w2 = emit (DbInsertLicense (keyFrom rt pfx (randomCalls w)))
                          (w\<lparr>randomCalls := randomCalls w + 4\<rparr>)"
  from Suc.prems have lt: "a < m" by simp
  have k0: "keyFrom rt pfx (randomCalls w) \<in> licenseKeys w"
    "\<not> licenseRefused rt (v\<lparr>key := keyFrom rt pfx (randomCalls w)\<rparr>)"
    using Suc.prems(1) [rule_format, of 0] by simp_all
  have step: "insertGeneratedKey rt now pfx v m a w = insertGeneratedKey rt now pfx v m (a + 1) w2"
    unfolding w2_def by (rule insertGeneratedKey_collision [OF lt k0])
  note w2 = collision_state [of "keyFrom rt pfx (randomCalls w)" w, folded w2_def]
  have "\<forall>i<j. keyFrom rt pfx (randomCalls w2 + 4 * i) \<in> licenseKeys w2
          \<and> \<not> licenseRefused rt (v\<lparr>key := keyFrom rt pfx (randomCalls w2 + 4 * i)\<rparr>)"
  proof (intro allI impI)
    fix i assume "i < j"
    then show "keyFrom rt pfx (randomCalls w2 + 4 * i) \<in> licenseKeys w2
          \<and> \<not> licenseRefused rt (v\<lparr>key := keyFrom rt pfx (randomCalls w2 + 4 * i)\<rparr>)"
      using Suc.prems(1) [rule_format, of "Suc i"] by (simp add: w2 add.assoc)
  qed
  moreover have "keyFrom rt pfx (randomCalls w2 + 4 * j) \<notin> licenseKeys w2"
    using Suc.prems(2) by (simp add: w2 add.assoc)
  moreover have "\<not> licenseRefused rt (v\<lparr>key := keyFrom rt pfx (randomCalls w2 + 4 * j)\<rparr>)"
    using Suc.prems(3) by (simp add: w2 add.assoc)
  moreover have "(a + 1) + j < m" using Suc.prems by simp
  moreover have "paddleSubscriptionId v \<notin> set (map paddleSubscriptionId (licenses w2))"
    using Suc.prems(5) by (simp add: w2)
  ultimately show ?case
    using Suc.IH [of w2 "a + 1"] w2 by (simp add: step add.assoc)
qed

lemma insertGeneratedKey_first_refused:
  "\<forall>i<j. keyFrom rt pfx (randomCalls w + 4 * i) \<in> licenseKeys w
          \<and> \<not> licenseRefused rt (v\<lparr>key := keyFrom rt pfx (randomCalls w + 4 * i)\<rparr>) \<Longrightarrow>
   licenseRefused rt (v\<lparr>key := keyFrom rt pfx (randomCalls w + 4 * j)\<rparr>) \<Longrightarrow>
   a + j < m \<Longrightarrow>
     fst (insertGeneratedKey rt now pfx v m a w) = Inl ValueRefused
     \<and> licenses (snd (insertGeneratedKey rt now pfx v m a w)) = licenses w
     \<and> insertAttempts (snd (insertGeneratedKey rt now pfx v m a w)) = insertAttempts w + j + 1"
proof (induction j arbitrary: a w)
  case 0
  define w1 where "w1 = w\<lparr>randomCalls := randomCalls w + 4\<rparr>"
  from 0 have lt: "a < m" by simp
  from 0 have ins: "insertLicense rt (v\<lparr>key := keyFrom rt pfx (randomCalls w)\<rparr>) now w1 =
       (Inl ValueRefused, emit (DbInsertLicense (keyFrom rt pfx (randomCalls w))) w1)"
    using insertLicense_refused [of rt "v\<lparr>key := keyFrom rt pfx (randomCalls w)\<rparr>" now w1]
    by simp
  show ?case
    using lt
    by (simp add: insertGeneratedKey.simps [of _ _ _ _ m a] buildLicenseKey_keyFrom
        w1_def [symmetric] ins)
       (simp add: w1_def emit_def insertAttempts_def)
next
  case (Suc j)
  define w2 where "w2 = emit (DbInsertLicense (keyFrom rt pfx (randomCalls w)))
                          (w\<lparr>randomCalls := randomCalls w + 4\<rparr>)"
  from Suc.prems have lt: "a < m" by simp
  have k0: "keyFrom rt pfx (randomCalls w) \<in> licenseKeys w"
    "\<not> licenseRefused rt (v\<lparr>key := keyFrom rt pfx (randomCalls w)\<rparr>)"
    using Suc.prems(1) [rule_format, of 0] by simp_all
  have step: "insertGeneratedKey rt now pfx v m a w = insertGeneratedKey rt now pfx v m (a + 1) w2"
    unfolding w2_def by (rule insertGeneratedKey_collision [OF lt k0])
  note w2 = collision_state [of "keyFrom rt pfx (randomCalls w)" w, folded w2_def]
  have "\<forall>i<j. keyFrom rt pfx (randomCalls w2 + 4 * i) \<in> licenseKeys w2
          \<and> \<not> licenseRefused rt (v\<lparr>key := keyFrom rt pfx (randomCalls w2 + 4 * i)\<rparr>)"
  proof (intro allI impI)
    fix i assume "i < j"
    then show "keyFrom rt pfx (randomCalls w2 + 4 * i) \<in> licenseKeys w2
          \<and> \<not> licenseRefused rt (v\<lparr>key := keyFrom rt pfx (randomCalls w2 + 4 * i)\<rparr>)"
      using Suc.prems(1) [rule_format, of "Suc i"] by (simp add: w2 add.assoc)
  qed
  moreover have "licenseRefused rt (v\<lparr>key := keyFrom rt pfx (randomCalls w2 + 4 * j)\<rparr>)"
    using Suc.prems(2) by (simp add: w2 add.assoc)
  moreover have "(a + 1) + j < m" using Suc.prems by simp
  ultimately show ?case
    using Suc.IH [of w2 "a + 1"] w2 by (simp add: step add.assoc)
qed

lemma selectLicenseBySubscription_unseen:
  "Some sid \<notin> set (map paddleSubscriptionId (licenses w)) \<Longrightarrow>
     selectLicenseBySubscription sid w = ([], emit (DbSelectLicenseBySubscription sid) w)"
proof -
  assume "Some sid \<notin> set (map paddleSubscriptionId (licenses w))"
  then have "filter (\<lambda>l. paddleSubscriptionId l = Some sid) (licenses w) = []"
    by (force simp: filter_empty_conv)
  then show ?thesis by (simp add: selectLicenseBySubscription_def)
qed

lemma upsertActiveLicense_new_subscription:
  assumes db: "hasDb svc"
    and sid: "extractSubscriptionId d = Some sid"
    and unseen: "Some sid \<notin> set (map paddleSubscriptionId (licenses w))"
  shows "upsertActiveLicense svc rt now d w =
           insertGeneratedKey rt now (orDefault (configService svc ''LICENSE_KEY_PREFIX'') (str ''AXON-''))
             \<lparr>key = [], email = extractEmail d,
              status = (case readString (map_of d (str ''status'')) of
                          Some s \<Rightarrow> s | None \<Rightarrow> str ''active''),
              plan = resolvePlan rt d, maxDevices = deriveMaxDevices rt (resolvePlan rt d),
              paddleSubscriptionId = Some sid, expiresAt = extractExpiryDate rt now d\<rparr>
             5 0 (emit (DbSelectLicenseBySubscription sid) w)"
  using db sid selectLicenseBySubscription_unseen [OF unseen]
  by (simp add: upsertActiveLicense_def Let_def)

lemma example_accepts:
  "licenseRefused exampleRuntime v \<longleftrightarrow> charLength (key v) > 64"
  by (simp add: licenseRefused_def exampleRuntime_def)

lemma example_keys:
  "keyFrom exampleRuntime (str ''AXON-'') 0 = str ''AXON-0000-0000-0000-0000''"
  "keyFrom exampleRuntime (str ''AXON-'') 4 = str ''AXON-0001-0001-0001-0001''"
  "charLength (str ''AXON-0000-0000-0000-0000'') = 24"
  "charLength (str ''AXON-0001-0001-0001-0001'') = 24"
  by code_simp+

lemma example_subscription:
  "extractSubscriptionId (data createdPayload) = Some (str ''sub_1'')"
  by code_simp

text \<open>
  Claim C6, as stated, fails for a long prefix. With a prefix of 46 characters configured,
  the generated key has 65 characters, one more than the column \<open>key\<close> of the schema
  holds. For an activating event with a subscription id that no license has, on an empty
  table, the first insert conflicts with no key, yet it does not succeed: the datastore
  refuses the row, the upsert raises that error after one attempt, and no license is
  created.
\<close>

theorem upsertActiveLicense_long_prefix_counterexample:
  "configService longPrefixService ''LICENSE_KEY_PREFIX'' = Some longPrefix
   \<and> charLength longPrefix = 46
   \<and> charLength (keyFrom exampleRuntime longPrefix 0) = 65
   \<and> keyFrom exampleRuntime longPrefix 0 \<notin> licenseKeys emptyWorld
   \<and> fst (upsertActiveLicense longPrefixService exampleRuntime 1000 (data createdPayload) emptyWorld)
       = Inl ValueRefused
   \<and> fst (upsertActiveLicense longPrefixService exampleRuntime 1000 (data createdPayload) emptyWorld)
       \<noteq> Inr ()
   \<and> licenses (snd (upsertActiveLicense longPrefixService exampleRuntime 1000
                       (data createdPayload) emptyWorld)) = []
   \<and> insertAttempts (snd (upsertActiveLicense longPrefixService exampleRuntime 1000
                             (data createdPayload) emptyWorld)) = 1"
proof -
  define w1 where "w1 = emit (DbSelectLicenseBySubscription (str ''sub_1'')) emptyWorld"
  have db: "hasDb longPrefixService"
    by (simp add: longPrefixService_def)
  have pfx: "configService longPrefixService ''LICENSE_KEY_PREFIX'' = Some longPrefix"
    "orDefault (configService longPrefixService ''LICENSE_KEY_PREFIX'') (str ''AXON-'') = longPrefix"
    by (simp_all add: longPrefixService_def orDefault_def longPrefix_def)
  have len: "charLength longPrefix = 46" "suffix (str ''-'') longPrefix"
    by code_simp+
  have klen: "charLength (keyFrom exampleRuntime longPrefix n) = 65" for n
    by (simp add: charLength_keyFrom len)
  have unseen: "Some (str ''sub_1'') \<notin> set (map paddleSubscriptionId (licenses emptyWorld))"
    by (simp add: emptyWorld_def)
  have w1: "licenses w1 = []" "insertAttempts w1 = 0" "randomCalls w1 = 0"
    by (simp_all add: w1_def emit_def emptyWorld_def insertAttempts_def)
  have refused: "licenseRefused exampleRuntime (v\<lparr>key := keyFrom exampleRuntime longPrefix (randomCalls w1 + 4 * 0)\<rparr>)"
    for v
    by (simp add: example_accepts klen)
  have run: "fst (insertGeneratedKey exampleRuntime 1000 longPrefix v 5 0 w1) = Inl ValueRefused
     \<and> licenses (snd (insertGeneratedKey exampleRuntime 1000 longPrefix v 5 0 w1)) = licenses w1
     \<and> insertAttempts (snd (insertGeneratedKey exampleRuntime 1000 longPrefix v 5 0 w1))
         = insertAttempts w1 + 0 + 1" for v
    by (rule insertGeneratedKey_first_refused [OF _ refused]) simp_all
  have free: "keyFrom exampleRuntime longPrefix 0 \<notin> licenseKeys emptyWorld"
    by (simp add: licenseKeys_def emptyWorld_def)
  note u = upsertActiveLicense_new_subscription
             [OF db example_subscription unseen, of exampleRuntime 1000,
              unfolded pfx(2), folded w1_def]
  show ?thesis
    unfolding u using run klen [of 0] free pfx(1) len(1) w1
    by simp
qed

text \<open>
  Claim C6, amended. When an activating event names a subscription id that no license has
  yet, the key of attempt \<open>i\<close> is the configured prefix (default \<open>AXON-\<close>, with a dash
  appended when it does not end in one) followed by four groups of two random bytes in
  hex; it starts with the configured prefix and has 19 characters more than the prefix
  with its dash. The insert is attempted at most 5 times. An attempt collides when the
  datastore accepts its values and its key is taken. The first attempt that does not
  collide ends the loop: when its key is free and the datastore accepts its values, the
  row is inserted under that key and the upsert succeeds; when the datastore refuses its
  values (as it does a key of more than 64 characters), the error of the datastore is
  raised and no row is added. When all 5 attempts collide the result is
  \<open>LICENSE_KEY_GENERATION_FAILED\<close> (500) and no row is added, and that error is raised
  in no other case.
\<close>

theorem upsertActiveLicense_key_generation:
  fixes svc :: LicenseService and rt :: runtime and now :: int and d :: UnknownRecord
    and w :: world and sid :: jsstring
  defines "pfx \<equiv> orDefault (configService svc ''LICENSE_KEY_PREFIX'') (str ''AXON-'')"
  defines "K \<equiv> \<lambda>i. keyFrom rt pfx (randomCalls w + 4 * i)"
  defines "V \<equiv> \<lambda>i. \<lparr>key = K i, email = extractEmail d,
                      status = (case readString (map_of d (str ''status'')) of
                                  Some s \<Rightarrow> s | None \<Rightarrow> str ''active''),
                      plan = resolvePlan rt d, maxDevices = deriveMaxDevices rt (resolvePlan rt d),
                      paddleSubscriptionId = Some sid, expiresAt = extractExpiryDate rt now d\<rparr>"
  defines "r \<equiv> upsertActiveLicense svc rt now d w"
  assumes db: "hasDb svc"
    and sid: "extractSubscriptionId d = Some sid"
    and unseen: "Some sid \<notin> set (map paddleSubscriptionId (licenses w))"
  shows "fst (buildLicenseKey rt pfx w) = K 0
       \<and> prefix pfx (K n)
       \<and> charLength (K n) = charLength (if suffix (str ''-'') pfx then pfx else pfx @ str ''-'') + 19
       \<and> (licenseRefused rt (V n) \<longleftrightarrow> charLength (K n) > 64 \<or> refusesLicense rt (V n))
       \<and> (j < 5 \<and> (\<forall>i<j. K i \<in> licenseKeys w \<and> \<not> licenseRefused rt (V i))
            \<and> K j \<notin> licenseKeys w \<and> \<not> licenseRefused rt (V j) \<longrightarrow>
            fst r = Inr ()
            \<and> licenses (snd r) =
                licenses w @
                  [\<lparr>key = K j, email = extractEmail d,
                    status = (case readString (map_of d (str ''status'')) of
                                Some s \<Rightarrow> s | None \<Rightarrow> str ''active''),
                    plan = resolvePlan rt d, maxDevices = deriveMaxDevices rt (resolvePlan rt d),
                    paddleSubscriptionId = Some sid, expiresAt = extractExpiryDate rt now d,
                    id' = nextId w, createdAt = now, updatedAt = now\<rparr>]
            \<and> insertAttempts (snd r) = insertAttempts w + j + 1)
       \<and> (j < 5 \<and> (\<forall>i<j. K i \<in> licenseKeys w \<and> \<not> licenseRefused rt (V i))
            \<and> licenseRefused rt (V j) \<longrightarrow>
            fst r = Inl ValueRefused \<and> licenses (snd r) = licenses w
            \<and> insertAttempts (snd r) = insertAttempts w + j + 1)
       \<and> ((\<forall>i<5. K i \<in> licenseKeys w \<and> \<not> licenseRefused rt (V i)) \<longrightarrow>
            fst r = Inl keyGenerationFailed \<and> licenses (snd r) = licenses w
            \<and> insertAttempts (snd r) = insertAttempts w + 5)
       \<and> (fst r = Inl keyGenerationFailed \<longrightarrow> (\<forall>i<5. K i \<in> licenseKeys w))
       \<and> insertAttempts (snd r) \<le> insertAttempts w + 5"
proof -
  define w1 where "w1 = emit (DbSelectLicenseBySubscription sid) w"
  define v where "v = \<lparr>key = [], email = extractEmail d,
                    status = (case readString (map_of d (str ''status'')) of
                                Some s \<Rightarrow> s | None \<Rightarrow> str ''active''),
                    plan = resolvePlan rt d, maxDevices = deriveMaxDevices rt (resolvePlan rt d),
                    paddleSubscriptionId = Some sid, expiresAt = extractExpiryDate rt now d\<rparr>"
  define C where "C = (\<lambda>i. K i \<in> licenseKeys w \<and> \<not> licenseRefused rt (V i))"
  have r: "r = insertGeneratedKey rt now pfx v 5 0 w1"
    using upsertActiveLicense_new_subscription [OF db sid unseen, of rt now]
    by (simp add: r_def pfx_def v_def w1_def)
  have w1: "licenses w1 = licenses w" "nextId w1 = nextId w" "randomCalls w1 = randomCalls w"
    "insertAttempts w1 = insertAttempts w" "licenseKeys w1 = licenseKeys w"
    by (simp_all add: w1_def emit_def insertAttempts_def licenseKeys_def)
  have K: "keyFrom rt pfx (randomCalls w + 4 * i) = K i" for i
    by (simp add: K_def)
  have V: "v\<lparr>key := K i\<rparr> = V i" for i
    by (simp add: v_def V_def)
  have row: "InsertLicense.extend (V j) (license.fields (nextId w) now now) =
               \<lparr>key = K j, email = extractEmail d,
                status = (case readString (map_of d (str ''status'')) of
                            Some s \<Rightarrow> s | None \<Rightarrow> str ''active''),
                plan = resolvePlan rt d, maxDevices = deriveMaxDevices rt (resolvePlan rt d),
                paddleSubscriptionId = Some sid, expiresAt = extractExpiryDate rt now d,
                id' = nextId w, createdAt = now, updatedAt = now\<rparr>" for j
    by (simp add: V_def InsertLicense.defs license.defs)
  have un: "paddleSubscriptionId v \<notin> set (map paddleSubscriptionId (licenses w1))"
    using unseen by (simp add: v_def w1)
  have a: "fst (buildLicenseKey rt pfx w) = K 0 \<and> prefix pfx (K n)"
    by (simp add: K_def keyFrom_prefix buildLicenseKey_keyFrom)
  have a': "charLength (K n) = charLength (if suffix (str ''-'') pfx then pfx else pfx @ str ''-'') + 19"
    unfolding K_def by (rule charLength_keyFrom)
  have a'': "licenseRefused rt (V n) \<longleftrightarrow> charLength (K n) > 64 \<or> refusesLicense rt (V n)"
    by (simp add: licenseRefused_def V_def)
  have b: "fst r = Inr ()
            \<and> licenses (snd r) =
                licenses w @
                  [\<lparr>key = K j, email = extractEmail d,
                    status = (case readString (map_of d (str ''status'')) of
                                Some s \<Rightarrow> s | None \<Rightarrow> str ''active''),
                    plan = resolvePlan rt d, maxDevices = deriveMaxDevices rt (resolvePlan rt d),
                    paddleSubscriptionId = Some sid, expiresAt = extractExpiryDate rt now d,
                    id' = nextId w, createdAt = now, updatedAt = now\<rparr>]
            \<and> insertAttempts (snd r) = insertAttempts w + j + 1"
    if "j < 5" "\<forall>i<j. C i" "K j \<notin> licenseKeys w" "\<not> licenseRefused rt (V j)" for j
  proof -
    have "fst (insertGeneratedKey rt now pfx v 5 0 w1) = Inr ()
        \<and> licenses (snd (insertGeneratedKey rt now pfx v 5 0 w1)) =
            licenses w @ [InsertLicense.extend (V j) (license.fields (nextId w) now now)]
        \<and> insertAttempts (snd (insertGeneratedKey rt now pfx v 5 0 w1)) = insertAttempts w + j + 1"
      by (rule insertGeneratedKey_first_free [of j rt pfx w1 v 0 5 now, unfolded w1 K V])
         (use that un in \<open>simp_all add: C_def w1\<close>)
    then show ?thesis
      by (simp only: r row)
  qed
  have b': "fst r = Inl ValueRefused \<and> licenses (snd r) = licenses w
            \<and> insertAttempts (snd r) = insertAttempts w + j + 1"
    if "j < 5" "\<forall>i<j. C i" "licenseRefused rt (V j)" for j
    unfolding r
    by (rule insertGeneratedKey_first_refused [of j rt pfx w1 v 0 5 now, unfolded w1 K V])
       (use that in \<open>simp_all add: C_def\<close>)
  have c: "fst r = Inl keyGenerationFailed \<and> licenses (snd r) = licenses w
            \<and> insertAttempts (snd r) = insertAttempts w + 5"
    if "\<forall>i<5. C i"
    using insertGeneratedKey_all_collide [of 5 rt pfx w1 v 0 5 now, unfolded w1 K V] that
    by (simp add: r C_def)
  have dich: "(\<forall>i<5. C i) \<or> (\<exists>j<5. (\<forall>i<j. C i) \<and> \<not> C j)"
  proof (cases "\<forall>i<5. C i")
    case True
    then show ?thesis by simp
  next
    case False
    then obtain i0 where i0: "i0 < 5" "\<not> C i0" by auto
    define j where "j = (LEAST j. \<not> C j)"
    have kj: "\<not> C j" unfolding j_def using i0(2) by (rule LeastI)
    have "j \<le> i0" unfolding j_def using i0(2) by (rule Least_le)
    have "\<forall>i<j. C i"
      unfolding j_def using not_less_Least by blast
    moreover note kj
    moreover have "j < 5" using \<open>j \<le> i0\<close> i0(1) by simp
    ultimately show ?thesis by blast
  qed
  have out: "fst r = Inr () \<or> fst r = Inl ValueRefused" "insertAttempts (snd r) \<le> insertAttempts w + 5"
    if "j < 5" "\<forall>i<j. C i" "\<not> C j" for j
  proof -
    from that(3) consider "licenseRefused rt (V j)"
      | "K j \<notin> licenseKeys w" "\<not> licenseRefused rt (V j)"
      by (auto simp: C_def)
    then have "(fst r = Inr () \<or> fst r = Inl ValueRefused)
        \<and> insertAttempts (snd r) \<le> insertAttempts w + 5"
    proof cases
      case 1
      from b' [OF that(1,2) 1] that(1) show ?thesis by simp
    next
      case 2
      from b [OF that(1,2) 2] that(1) show ?thesis by simp
    qed
    then show "fst r = Inr () \<or> fst r = Inl ValueRefused"
      "insertAttempts (snd r) \<le> insertAttempts w + 5"
      by simp_all
  qed
  have d: "\<forall>i<5. K i \<in> licenseKeys w" if "fst r = Inl keyGenerationFailed"
    using dich out(1) that by (auto simp: C_def keyGenerationFailed_def)
  have e: "insertAttempts (snd r) \<le> insertAttempts w + 5"
    using dich out(2) c by auto
  from a a' a'' b [of j] b' [of j] c d e show ?thesis
    unfolding C_def by blast
qed

text \<open>On the example platform with the default prefix: the first key is taken, the second
  is free and inserted. With the prefix of 46 characters the first insert is refused.\<close>

theorem upsertActiveLicense_key_generation_witness:
  "fst (upsertActiveLicense exampleService exampleRuntime 1000 (data createdPayload) collisionWorld)
     = Inr ()
   \<and> map key (licenses (snd (upsertActiveLicense exampleService exampleRuntime 1000
                                (data createdPayload) collisionWorld)))
       = [str ''AXON-0000-0000-0000-0000'', str ''AXON-0001-0001-0001-0001'']
   \<and> insertAttempts (snd (upsertActiveLicense exampleService exampleRuntime 1000
                                (data createdPayload) collisionWorld)) = 2
   \<and> fst (upsertActiveLicense longPrefixService exampleRuntime 1000 (data createdPayload)
            collisionWorld)
     = Inl ValueRefused
   \<and> licenses (snd (upsertActiveLicense longPrefixService exampleRuntime 1000
                       (data createdPayload) collisionWorld))
     = licenses collisionWorld"
proof -
  have long: "orDefault (configService longPrefixService ''LICENSE_KEY_PREFIX'') (str ''AXON-'')
                = longPrefix"
    by (simp add: longPrefixService_def orDefault_def longPrefix_def)
  have len: "charLength longPrefix = 46" "suffix (str ''-'') longPrefix"
    by code_simp+
  have db: "hasDb longPrefixService"
    by (simp add: longPrefixService_def)
  have unseen: "Some (str ''sub_1'') \<notin> set (map paddleSubscriptionId (licenses collisionWorld))"
    by (simp add: collisionWorld_def activeLicense_def)
  have pfx: "orDefault (configService exampleService ''LICENSE_KEY_PREFIX'') (str ''AXON-'') = str ''AXON-''"
    by (simp add: exampleService_def orDefault_def)
  have rc: "randomCalls collisionWorld = 0" "insertAttempts collisionWorld = 0"
    "licenseKeys collisionWorld = {str ''AXON-0000-0000-0000-0000''}"
    "map key (licenses collisionWorld) = [str ''AXON-0000-0000-0000-0000'']"
    by (simp_all add: collisionWorld_def emptyWorld_def insertAttempts_def licenseKeys_def
        activeLicense_def)
  have first: "fst (upsertActiveLicense exampleService exampleRuntime 1000 (data createdPayload)
                      collisionWorld) = Inr ()
      \<and> map key (licenses (snd (upsertActiveLicense exampleService exampleRuntime 1000
                                   (data createdPayload) collisionWorld)))
          = [str ''AXON-0000-0000-0000-0000'', str ''AXON-0001-0001-0001-0001'']
      \<and> insertAttempts (snd (upsertActiveLicense exampleService exampleRuntime 1000
                                   (data createdPayload) collisionWorld)) = 2"
    using upsertActiveLicense_key_generation
            [where rt = exampleRuntime and now = 1000 and j = 1 and n = 0,
             OF example_hasDb example_subscription unseen]
    by (simp add: pfx rc example_keys example_accepts)
  have second: "fst (upsertActiveLicense longPrefixService exampleRuntime 1000
                       (data createdPayload) collisionWorld) = Inl ValueRefused
      \<and> licenses (snd (upsertActiveLicense longPrefixService exampleRuntime 1000
                          (data createdPayload) collisionWorld)) = licenses collisionWorld"
    using upsertActiveLicense_key_generation
            [where rt = exampleRuntime and now = 1000 and j = 0 and n = 0,
             OF db example_subscription unseen]
    by (simp add: long len rc example_accepts)
  from first second show ?thesis
    by simp
qed

section \<open>The lifecycle engine\<close>


lemma created_activating: "(str ''subscription.created'') \<in> PADDLE_ACTIVATING_EVENTS"
  by (simp add: PADDLE_ACTIVATING_EVENTS_def)

lemma applyPaddleLifecycle_created_fresh:
  assumes db: "hasDb svc"
    and ety: "eventType payload = str ''subscription.created''"
    and sid: "extractSubscriptionId (data payload) = Some sid"
    and none: "licenses w = []"
    and accepted:
      "\<And>v. \<not> licenseRefused rt
              (v\<lparr>key := keyFrom rt (orDefault (configService svc ''LICENSE_KEY_PREFIX'') (str ''AXON-''))
                           (randomCalls w)\<rparr>)"
  shows "fst (applyPaddleLifecycle svc rt now payload w) = Inr Activated"
proof -
  define w0 where "w0 = emit (ApplyLifecycle (eventType payload)) w"
  define w1 where "w1 = emit (DbSelectLicenseBySubscription sid) w0"
  define pfx where "pfx = orDefault (configService svc ''LICENSE_KEY_PREFIX'') (str ''AXON-'')"
  have l: "licenses w0 = []" "licenses w1 = []" "randomCalls w1 = randomCalls w"
    using none by (simp_all add: w0_def w1_def emit_def)
  have unseen: "Some sid \<notin> set (map paddleSubscriptionId (licenses w0))"
    by (simp add: l)
  have "fst (insertGeneratedKey rt now pfx v 5 0 w1) = Inr ()" for v
    using insertGeneratedKey_first_free [of 0 rt pfx w1 v 0 5 now] accepted [of v]
    by (simp add: licenseKeys_def l pfx_def)
  then have "fst (upsertActiveLicense svc rt now (data payload) w0) = Inr ()"
    by (simp add: upsertActiveLicense_new_subscription [OF db sid unseen] w1_def pfx_def)
  then show ?thesis
    using ety created_activating
    by (cases "upsertActiveLicense svc rt now (data payload) w0")
       (simp add: applyPaddleLifecycle_def Let_def w0_def)
qed




section \<open>The idempotency ledger\<close>

lemma insertProcessedEvent_claimed:
  "fst (insertProcessedEvent eid now w) \<noteq> [] \<longleftrightarrow> eid \<notin> ledger w"
  by (simp add: insertProcessedEvent_def ledger_def)

lemma insertProcessedEvent_ledger:
  "ledger (snd (insertProcessedEvent eid now w)) = insert eid (ledger w)"
  by (auto simp: insertProcessedEvent_def ledger_def emit_def)


lemma processPaddleWebhook_reserved:
  assumes v: "verifyPaddleSignature svc rt now rawBody hdr = Inr ()"
    and p: "parsePaddlePayload rt rawBody = Inr payload"
    and db: "hasDb svc"
  shows "processPaddleWebhook svc rt now rawBody hdr w =
     (case insertProcessedEvent (eventId payload) now w of
        (lock, w1) \<Rightarrow>
          if lock = [] then
            (Inr \<lparr>ok = True, res_eventId = eventId payload,
                  res_eventType = eventType payload, action = Duplicate\<rparr>, w1)
          else
            (case applyPaddleLifecycle svc rt now payload w1 of
               (Inr act, w2) \<Rightarrow>
                 (Inr \<lparr>ok = True, res_eventId = eventId payload,
                       res_eventType = eventType payload, action = act\<rparr>, w2)
             | (Inl e, w2) \<Rightarrow> (Inl e, deleteProcessedEvent (eventId payload) w2)))"
  using v p db by (simp add: processPaddleWebhook_def)

lemma processPaddleWebhook_applied:
  assumes v: "verifyPaddleSignature svc rt now rawBody hdr = Inr ()"
    and p: "parsePaddlePayload rt rawBody = Inr payload"
    and db: "hasDb svc"
    and claimed: "fst (insertProcessedEvent (eventId payload) now w) \<noteq> []"
    and applied: "fst (applyPaddleLifecycle svc rt now payload
                         (snd (insertProcessedEvent (eventId payload) now w))) = Inr act"
  shows "fst (processPaddleWebhook svc rt now rawBody hdr w) =
           Inr \<lparr>ok = True, res_eventId = eventId payload, res_eventType = eventType payload,
                 action = act\<rparr>"
proof -
  obtain lock w1 where i: "insertProcessedEvent (eventId payload) now w = (lock, w1)"
    by (cases "insertProcessedEvent (eventId payload) now w")
  obtain r w2 where a: "applyPaddleLifecycle svc rt now payload w1 = (r, w2)"
    by (cases "applyPaddleLifecycle svc rt now payload w1")
  from i a claimed applied show ?thesis
    by (simp add: processPaddleWebhook_reserved [OF v p db])
qed

lemma processPaddleWebhook_replay:
  assumes v: "verifyPaddleSignature svc rt now rawBody hdr = Inr ()"
    and p: "parsePaddlePayload rt rawBody = Inr payload"
    and db: "hasDb svc"
    and held: "eventId payload \<in> ledger w"
  shows "processPaddleWebhook svc rt now rawBody hdr w =
           (Inr \<lparr>ok = True, res_eventId = eventId payload, res_eventType = eventType payload,
                 action = Duplicate\<rparr>,
            emit (DbInsertProcessedEvent (eventId payload)) w)"
  using held
  by (simp add: processPaddleWebhook_reserved [OF v p db] insertProcessedEvent_def ledger_def)



text \<open>
  Claim C1, as stated, fails in a state whose ledger already holds the event id. Both
  calls with the body of \<open>evt_1\<close> succeed, each with action \<open>duplicate\<close>, and the
  number of lifecycle applications after the two calls is what it was before them: none
  happens, not exactly one.
\<close>

theorem processPaddleWebhook_replay_counterexample:
  "fst (processPaddleWebhook exampleService exampleRuntime 1000 bodyCreated
          (Some validSignatureHeader) replayWorld)
     = Inr \<lparr>ok = True, res_eventId = str ''evt_1'', res_eventType = str ''subscription.created'',
            action = Duplicate\<rparr>
   \<and> fst (processPaddleWebhook exampleService exampleRuntime 1000 bodyCreated
          (Some validSignatureHeader)
          (snd (processPaddleWebhook exampleService exampleRuntime 1000 bodyCreated
                  (Some validSignatureHeader) replayWorld)))
     = Inr \<lparr>ok = True, res_eventId = str ''evt_1'', res_eventType = str ''subscription.created'',
            action = Duplicate\<rparr>
   \<and> lifecycleApplications
        (snd (processPaddleWebhook exampleService exampleRuntime 1000 bodyCreated
          (Some validSignatureHeader)
          (snd (processPaddleWebhook exampleService exampleRuntime 1000 bodyCreated
                  (Some validSignatureHeader) replayWorld))))
     = lifecycleApplications replayWorld"
proof -
  have h: "eventId createdPayload \<in> ledger replayWorld"
    by (simp add: createdPayload_def ledger_def replayWorld_def emptyWorld_def)
  have h': "eventId createdPayload \<in> ledger (emit (DbInsertProcessedEvent (eventId createdPayload)) replayWorld)"
    using h by (simp add: ledger_def emit_def)
  have first: "processPaddleWebhook exampleService exampleRuntime 1000 bodyCreated
                 (Some validSignatureHeader) replayWorld
               = (Inr \<lparr>ok = True, res_eventId = str ''evt_1'', res_eventType = str ''subscription.created'',
                       action = Duplicate\<rparr>,
                  emit (DbInsertProcessedEvent (str ''evt_1'')) replayWorld)"
    using processPaddleWebhook_replay [OF example_verified(1) example_parsed(1) example_hasDb h]
    by (simp add: createdPayload_def)
  have second: "processPaddleWebhook exampleService exampleRuntime 1000 bodyCreated
                 (Some validSignatureHeader) (emit (DbInsertProcessedEvent (str ''evt_1'')) replayWorld)
               = (Inr \<lparr>ok = True, res_eventId = str ''evt_1'', res_eventType = str ''subscription.created'',
                       action = Duplicate\<rparr>,
                  emit (DbInsertProcessedEvent (str ''evt_1''))
                    (emit (DbInsertProcessedEvent (str ''evt_1'')) replayWorld))"
    using processPaddleWebhook_replay [OF example_verified(1) example_parsed(1) example_hasDb h']
    by (simp add: createdPayload_def)
  have count: "lifecycleApplications (emit (DbInsertProcessedEvent (str ''evt_1''))
                    (emit (DbInsertProcessedEvent (str ''evt_1'')) replayWorld))
                 = lifecycleApplications replayWorld"
    by (simp add: lifecycleApplications_def emit_def)
  show ?thesis
    unfolding first snd_conv fst_conv second count
    by simp
qed

text \<open>
  Claim C1, amended. If \<open>processPaddleWebhook\<close> succeeds on a payload and is then
  invoked, with a signature that verifies, on a payload carrying the same event id, the
  second invocation returns \<open>ok: true\<close> with action \<open>duplicate\<close>; it sends the
  reservation insert and nothing else, so both tables after it equal the tables before it;
  and across the two calls exactly one lifecycle application happens when the ledger held
  no row for the event id before the first call, and none when it did.
\<close>

theorem processPaddleWebhook_duplicate:
  assumes p1: "parsePaddlePayload rt body1 = Inr payload1"
    and first: "processPaddleWebhook svc rt now1 body1 hdr1 w = (Inr res1, w1)"
    and v2: "verifyPaddleSignature svc rt now2 body2 hdr2 = Inr ()"
    and p2: "parsePaddlePayload rt body2 = Inr payload2"
    and same: "eventId payload2 = eventId payload1"
  shows "processPaddleWebhook svc rt now2 body2 hdr2 w1 =
           (Inr \<lparr>ok = True, res_eventId = eventId payload2, res_eventType = eventType payload2,
                 action = Duplicate\<rparr>,
            emit (DbInsertProcessedEvent (eventId payload2)) w1)
       \<and> licenses (snd (processPaddleWebhook svc rt now2 body2 hdr2 w1)) = licenses w1
       \<and> processedEvents (snd (processPaddleWebhook svc rt now2 body2 hdr2 w1)) = processedEvents w1
       \<and> lifecycleApplications (snd (processPaddleWebhook svc rt now2 body2 hdr2 w1))
           = lifecycleApplications w + (if eventId payload1 \<in> ledger w then 0 else 1)"
proof -
  have v1: "verifyPaddleSignature svc rt now1 body1 hdr1 = Inr ()"
    using first by (auto simp: processPaddleWebhook_def split: sum.splits)
  have db: "hasDb svc"
    using first p1 v1 by (auto simp: processPaddleWebhook_def backendUnavailable_def split: if_splits)
  obtain lock w0 where i: "insertProcessedEvent (eventId payload1) now1 w = (lock, w0)"
    by (cases "insertProcessedEvent (eventId payload1) now1 w")
  have l0: "ledger w0 = insert (eventId payload1) (ledger w)"
    using insertProcessedEvent_ledger [of "eventId payload1" now1 w] i by simp
  have c0: "lifecycleApplications w0 = lifecycleApplications w"
    using i by (auto simp: insertProcessedEvent_def emit_def lifecycleApplications_def split: if_splits)
  have lk: "lock = [] \<longleftrightarrow> eventId payload1 \<in> ledger w"
    using insertProcessedEvent_claimed [of "eventId payload1" now1 w] i by simp
  have w1: "eventId payload1 \<in> ledger w1
      \<and> lifecycleApplications w1 = lifecycleApplications w + (if eventId payload1 \<in> ledger w then 0 else 1)"
  proof (cases "lock = []")
    case True
    with first i have "w1 = w0"
      by (simp add: processPaddleWebhook_reserved [OF v1 p1 db])
    with l0 c0 lk True show ?thesis by simp
  next
    case False
    obtain r w2 where a: "applyPaddleLifecycle svc rt now1 payload1 w0 = (r, w2)"
      by (cases "applyPaddleLifecycle svc rt now1 payload1 w0")
    with first i False have "w1 = w2"
      by (auto simp: processPaddleWebhook_reserved [OF v1 p1 db] split: sum.splits)
    with applyPaddleLifecycle_frame [OF a] l0 c0 lk False show ?thesis
      by (simp add: ledger_def)
  qed
  then have dup: "insertProcessedEvent (eventId payload2) now2 w1
                    = ([], emit (DbInsertProcessedEvent (eventId payload2)) w1)"
    using same by (simp add: insertProcessedEvent_def ledger_def)
  have second: "processPaddleWebhook svc rt now2 body2 hdr2 w1 =
           (Inr \<lparr>ok = True, res_eventId = eventId payload2, res_eventType = eventType payload2,
                 action = Duplicate\<rparr>,
            emit (DbInsertProcessedEvent (eventId payload2)) w1)"
    by (simp add: processPaddleWebhook_reserved [OF v2 p2 db] dup)
  show ?thesis
    using w1 by (simp add: second emit_def lifecycleApplications_def)
qed

theorem processPaddleWebhook_duplicate_witness:
  "fst (processPaddleWebhook exampleService exampleRuntime 1000 bodyCreated
          (Some validSignatureHeader) emptyWorld)
     = Inr \<lparr>ok = True, res_eventId = str ''evt_1'', res_eventType = str ''subscription.created'',
            action = Activated\<rparr>
   \<and> fst (processPaddleWebhook exampleService exampleRuntime 1000 bodyCreated
          (Some validSignatureHeader)
          (snd (processPaddleWebhook exampleService exampleRuntime 1000 bodyCreated
                  (Some validSignatureHeader) emptyWorld)))
     = Inr \<lparr>ok = True, res_eventId = str ''evt_1'', res_eventType = str ''subscription.created'',
            action = Duplicate\<rparr>
   \<and> lifecycleApplications
        (snd (processPaddleWebhook exampleService exampleRuntime 1000 bodyCreated
          (Some validSignatureHeader)
          (snd (processPaddleWebhook exampleService exampleRuntime 1000 bodyCreated
                  (Some validSignatureHeader) emptyWorld))))
     = 1"
proof -
  have c: "fst (insertProcessedEvent (eventId createdPayload) 1000 emptyWorld) \<noteq> []"
    by code_simp
  have sid: "extractSubscriptionId (data createdPayload) = Some (str ''sub_1'')"
    by code_simp
  have pfx: "orDefault (configService exampleService ''LICENSE_KEY_PREFIX'') (str ''AXON-'')
               = str ''AXON-''"
    by (simp add: exampleService_def orDefault_def)
  have rc: "randomCalls (snd (insertProcessedEvent (eventId createdPayload) 1000 emptyWorld)) = 0"
    by (simp add: insertProcessedEvent_def emit_def emptyWorld_def)
  have acc: "\<not> licenseRefused exampleRuntime
               (v\<lparr>key := keyFrom exampleRuntime
                            (orDefault (configService exampleService ''LICENSE_KEY_PREFIX'')
                               (str ''AXON-''))
                            (randomCalls (snd (insertProcessedEvent (eventId createdPayload) 1000
                                                 emptyWorld)))\<rparr>)" for v
    by (simp add: pfx rc example_accepts example_keys)
  have a: "fst (applyPaddleLifecycle exampleService exampleRuntime 1000 createdPayload
                  (snd (insertProcessedEvent (eventId createdPayload) 1000 emptyWorld)))
             = Inr Activated"
    by (rule applyPaddleLifecycle_created_fresh [OF example_hasDb _ sid _ acc])
       (simp_all add: createdPayload_def insertProcessedEvent_def emit_def emptyWorld_def)
  have first: "fst (processPaddleWebhook exampleService exampleRuntime 1000 bodyCreated
                 (Some validSignatureHeader) emptyWorld)
               = Inr \<lparr>ok = True, res_eventId = str ''evt_1'', res_eventType = str ''subscription.created'',
                       action = Activated\<rparr>"
    using processPaddleWebhook_applied [OF example_verified(1) example_parsed(1) example_hasDb c a]
    by (simp add: createdPayload_def)
  then have first': "processPaddleWebhook exampleService exampleRuntime 1000 bodyCreated
                 (Some validSignatureHeader) emptyWorld
               = (Inr \<lparr>ok = True, res_eventId = str ''evt_1'', res_eventType = str ''subscription.created'',
                       action = Activated\<rparr>,
                  snd (processPaddleWebhook exampleService exampleRuntime 1000 bodyCreated
                         (Some validSignatureHeader) emptyWorld))"
    by (metis prod.collapse)
  have fresh: "eventId createdPayload \<notin> ledger emptyWorld" "lifecycleApplications emptyWorld = 0"
    by (simp_all add: ledger_def emptyWorld_def lifecycleApplications_def)
  note dup = processPaddleWebhook_duplicate
               [OF example_parsed(1) first' example_verified(1) example_parsed(1) refl]
  have second: "fst (processPaddleWebhook exampleService exampleRuntime 1000 bodyCreated
                  (Some validSignatureHeader)
                  (snd (processPaddleWebhook exampleService exampleRuntime 1000 bodyCreated
                          (Some validSignatureHeader) emptyWorld)))
                = Inr \<lparr>ok = True, res_eventId = str ''evt_1'',
                       res_eventType = str ''subscription.created'', action = Duplicate\<rparr>"
    using dup [THEN conjunct1] by (simp add: createdPayload_def)
  have count: "lifecycleApplications
                 (snd (processPaddleWebhook exampleService exampleRuntime 1000 bodyCreated
                   (Some validSignatureHeader)
                   (snd (processPaddleWebhook exampleService exampleRuntime 1000 bodyCreated
                           (Some validSignatureHeader) emptyWorld)))) = 1"
    using dup [THEN conjunct2, THEN conjunct2, THEN conjunct2] fresh by simp
  from first second count show ?thesis by simp
qed

end
